theory Spec2Isabelle
  imports Main "HOL-Library.Sublist"
begin

section \<open>Python strings\<close>

text \<open>
  The repository is Python. Its \<^verbatim>\<open>str\<close> values are modelled as \<^typ>\<open>string\<close>, read as
  ASCII text: a character is its code, the cased characters are the 52 ASCII letters, and
  the white-space characters are the ASCII ones of \<^verbatim>\<open>str.isspace\<close> (codes 9 to 13, 28 to 31
  and 32). Each function below is the \<^verbatim>\<open>str\<close> method of the same name on such text.
\<close>

definition code :: "char \<Rightarrow> nat" where
  "code c = of_char c"

definition isspace :: "char \<Rightarrow> bool" where
  "isspace c = ((9 \<le> code c \<and> code c \<le> 13) \<or> (28 \<le> code c \<and> code c \<le> 32))"

definition isupper :: "char \<Rightarrow> bool" where
  "isupper c = (65 \<le> code c \<and> code c \<le> 90)"

definition islower :: "char \<Rightarrow> bool" where
  "islower c = (97 \<le> code c \<and> code c \<le> 122)"

definition isalpha :: "char \<Rightarrow> bool" where
  "isalpha c = (isupper c \<or> islower c)"

definition isdigit :: "char \<Rightarrow> bool" where
  "isdigit c = (48 \<le> code c \<and> code c \<le> 57)"

definition lower_char :: "char \<Rightarrow> char" where
  "lower_char c = (if isupper c then char_of (code c + 32) else c)"

definition upper_char :: "char \<Rightarrow> char" where
  "upper_char c = (if islower c then char_of (code c - 32) else c)"

definition lower :: "string \<Rightarrow> string" where
  "lower s = map lower_char s"

definition lstrip :: "string \<Rightarrow> string" where
  "lstrip s = dropWhile isspace s"

definition rstrip :: "string \<Rightarrow> string" where
  "rstrip s = rev (dropWhile isspace (rev s))"

definition strip :: "string \<Rightarrow> string" where
  "strip s = rstrip (lstrip s)"

text \<open>\<^verbatim>\<open>sub in s\<close>, \<^verbatim>\<open>s.startswith(p)\<close> and \<^verbatim>\<open>s.endswith(p)\<close>.\<close>

fun startswith :: "string \<Rightarrow> string \<Rightarrow> bool" where
  "startswith s [] = True"
| "startswith [] (p # ps) = False"
| "startswith (c # cs) (p # ps) = (c = p \<and> startswith cs ps)"

definition endswith :: "string \<Rightarrow> string \<Rightarrow> bool" where
  "endswith s p = startswith (rev s) (rev p)"

fun contains :: "string \<Rightarrow> string \<Rightarrow> bool" where
  "contains [] sub = (sub = [])"
| "contains (c # cs) sub = (startswith (c # cs) sub \<or> contains cs sub)"

text \<open>\<^verbatim>\<open>s.replace(old, new)\<close> for a non-empty \<^verbatim>\<open>old\<close>: left to right, non-overlapping.\<close>

function replace :: "string \<Rightarrow> string \<Rightarrow> string \<Rightarrow> string" where
  "replace old new [] = []"
| "replace old new (c # cs) =
     (if old \<noteq> [] \<and> startswith (c # cs) old
      then new @ replace old new (drop (length old) (c # cs))
      else c # replace old new cs)"
  by pat_completeness auto
termination
  by (relation "measure (\<lambda>(old, new, s). length s)") (auto simp: Suc_le_eq)

text \<open>\<^verbatim>\<open>s.split(sep)\<close> for a one-character separator, and \<^verbatim>\<open>s.split()\<close> on white space.\<close>

fun split_on :: "char \<Rightarrow> string \<Rightarrow> string list" where
  "split_on sep [] = [[]]"
| "split_on sep (c # cs) =
     (case split_on sep cs of
        [] \<Rightarrow> [[c]]
      | w # ws \<Rightarrow> if c = sep then [] # w # ws else (c # w) # ws)"

function split_ws :: "string \<Rightarrow> string list" where
  "split_ws s =
     (let s' = dropWhile isspace s
      in if s' = [] then []
         else takeWhile (\<lambda>c. \<not> isspace c) s' # split_ws (dropWhile (\<lambda>c. \<not> isspace c) s'))"
  by pat_completeness auto
termination
proof (relation "measure length")
  show "wf (measure length)" by simp
next
  fix s s' :: string
  assume s': "s' = dropWhile isspace s" and ne: "s' \<noteq> []"
  have "\<not> isspace (hd s')" using s' ne hd_dropWhile [of isspace s] by simp
  then have "dropWhile (\<lambda>c. \<not> isspace c) s' = dropWhile (\<lambda>c. \<not> isspace c) (tl s')"
    using ne by (cases s') simp_all
  then have "length (dropWhile (\<lambda>c. \<not> isspace c) s') \<le> length (tl s')"
    using length_dropWhile_le [of "\<lambda>c. \<not> isspace c" "tl s'"] by metis
  also have "\<dots> < length s'" using ne by (cases s') simp_all
  also have "\<dots> \<le> length s" using s' by (simp add: length_dropWhile_le)
  finally show "(dropWhile (\<lambda>c. \<not> isspace c) s', s) \<in> measure length" by simp
qed

declare split_ws.simps [simp del]

text \<open>\<^verbatim>\<open>sep.join(parts)\<close>.\<close>

fun join :: "string \<Rightarrow> string list \<Rightarrow> string" where
  "join sep [] = []"
| "join sep [p] = p"
| "join sep (p # q # ps) = p @ sep @ join sep (q # ps)"

text \<open>
  \<^verbatim>\<open>s.title()\<close>: a cased character is put in upper case when the character before it is
  not cased (or there is none), in lower case otherwise.
\<close>

fun title_from :: "bool \<Rightarrow> string \<Rightarrow> string" where
  "title_from prev [] = []"
| "title_from prev (c # cs) =
     (if prev then lower_char c else upper_char c) # title_from (isalpha c) cs"

definition py_title :: "string \<Rightarrow> string" where
  "py_title s = title_from False s"

section \<open>The standard library's URL parser\<close>

text \<open>
  \<^verbatim>\<open>urllib.parse.urlparse\<close> is not code of the repository; both URL utilities call it. It
  is modelled after CPython 3.11 (\<^verbatim>\<open>urlsplit\<close>, then the split of the parameters off the
  path) on ASCII text. The parser raises \<^verbatim>\<open>ValueError\<close> on unbalanced brackets in the
  network location and on a bracketed host that is not an IPv6 or IPvFuture literal; the
  test of the \<^verbatim>\<open>ipaddress\<close> module for an IPv6 literal is the parameter \<open>ip6\<close>.
\<close>

datatype py_error = ValueError | AttributeError | TypeError | KeyError | IndexError
  | UnboundLocalError

record parse_result =
  scheme :: string
  netloc :: string
  path :: string
  params :: string
  query :: string
  fragment :: string

definition scheme_char :: "char \<Rightarrow> bool" where
  "scheme_char c = (isalpha c \<or> isdigit c \<or> c \<in> set ''+-.'')"

definition uses_params :: "string list" where
  "uses_params = ['''', ''ftp'', ''hdl'', ''prospero'', ''http'', ''imap'', ''https'',
     ''shttp'', ''rtsp'', ''rtsps'', ''rtspu'', ''sip'', ''sips'', ''mms'', ''sftp'', ''tel'']"

definition is_hex :: "char \<Rightarrow> bool" where
  "is_hex c = (isdigit c \<or> c \<in> set ''abcdefABCDEF'')"

text \<open>\<^verbatim>\<open>_check_bracketed_host\<close>: \<open>True\<close> when it returns, \<open>False\<close> when it raises.\<close>

definition check_bracketed_host :: "(string \<Rightarrow> bool) \<Rightarrow> string \<Rightarrow> bool" where
  "check_bracketed_host ip6 h =
     (if startswith h ''v''
      then (let ds = takeWhile is_hex (tl h); r = dropWhile is_hex (tl h)
            in ds \<noteq> [] \<and> startswith r ''.'' \<and> tl r \<noteq> [])
      else ip6 h)"

text \<open>\<^verbatim>\<open>_splitparams\<close>, called only when the path has a \<^verbatim>\<open>;\<close>.\<close>

definition splitparams :: "string \<Rightarrow> string \<times> string" where
  "splitparams url =
     (if CHR ''/'' \<in> set url
      then (let seg = rev (takeWhile (\<lambda>c. c \<noteq> CHR ''/'') (rev url));
                front = take (length url - length seg) url
            in if CHR '';'' \<in> set seg
               then (front @ takeWhile (\<lambda>c. c \<noteq> CHR '';'') seg,
                     tl (dropWhile (\<lambda>c. c \<noteq> CHR '';'') seg))
               else (url, []))
      else (takeWhile (\<lambda>c. c \<noteq> CHR '';'') url, tl (dropWhile (\<lambda>c. c \<noteq> CHR '';'') url)))"

definition urlparse :: "(string \<Rightarrow> bool) \<Rightarrow> string \<Rightarrow> py_error + parse_result" where
  "urlparse ip6 url0 =
     (let url1 = dropWhile (\<lambda>c. code c \<le> 32) url0;
          url2 = filter (\<lambda>c. code c \<noteq> 9 \<and> code c \<noteq> 13 \<and> code c \<noteq> 10) url1;
          pre = takeWhile (\<lambda>c. c \<noteq> CHR '':'') url2;
          has_scheme = (CHR '':'' \<in> set url2 \<and> pre \<noteq> [] \<and> isalpha (hd url2)
                        \<and> list_all scheme_char pre);
          sch = (if has_scheme then lower pre else []);
          url3 = (if has_scheme then drop (length pre + 1) url2 else url2);
          has_netloc = (take 2 url3 = ''//'');
          delim = (\<lambda>c. c = CHR ''/'' \<or> c = CHR ''?'' \<or> c = CHR ''#'');
          loc = (if has_netloc then takeWhile (\<lambda>c. \<not> delim c) (drop 2 url3) else []);
          url4 = (if has_netloc then dropWhile (\<lambda>c. \<not> delim c) (drop 2 url3) else url3);
          lb = (CHR ''['' \<in> set loc);
          rb = (CHR '']'' \<in> set loc);
          host = takeWhile (\<lambda>c. c \<noteq> CHR '']'') (tl (dropWhile (\<lambda>c. c \<noteq> CHR ''['') loc))
      in if (lb \<and> \<not> rb) \<or> (rb \<and> \<not> lb) then Inl ValueError
         else if lb \<and> rb \<and> \<not> check_bracketed_host ip6 host then Inl ValueError
         else
           (let frag = (if CHR ''#'' \<in> set url4
                        then tl (dropWhile (\<lambda>c. c \<noteq> CHR ''#'') url4) else []);
                url5 = takeWhile (\<lambda>c. c \<noteq> CHR ''#'') url4;
                qry = (if CHR ''?'' \<in> set url5
                       then tl (dropWhile (\<lambda>c. c \<noteq> CHR ''?'') url5) else []);
                url6 = takeWhile (\<lambda>c. c \<noteq> CHR ''?'') url5;
                split = (sch \<in> set uses_params \<and> CHR '';'' \<in> set url6)
            in Inr \<lparr>scheme = sch, netloc = loc,
                    path = (if split then fst (splitparams url6) else url6),
                    params = (if split then snd (splitparams url6) else []),
                    query = qry, fragment = frag\<rparr>))"

section \<open>URL and name utilities\<close>

text \<open>
  \<^verbatim>\<open>api_helpers.is_valid_url\<close>: the empty string is rejected first, an exception of the
  parser gives \<open>False\<close>.
\<close>

definition is_valid_url :: "(string \<Rightarrow> bool) \<Rightarrow> string \<Rightarrow> bool" where
  "is_valid_url ip6 url =
     (if url = [] then False
      else case urlparse ip6 url of
             Inl e \<Rightarrow> False
           | Inr p \<Rightarrow> scheme p \<in> set [''http'', ''https''] \<and> netloc p \<noteq> [])"

text \<open>\<^verbatim>\<open>validation.is_valid_url\<close>: \<^verbatim>\<open>all([result.scheme, result.netloc])\<close>.\<close>

definition validation_is_valid_url :: "(string \<Rightarrow> bool) \<Rightarrow> string \<Rightarrow> bool" where
  "validation_is_valid_url ip6 url =
     (case urlparse ip6 url of
        Inl e \<Rightarrow> False
      | Inr result \<Rightarrow> scheme result \<noteq> [] \<and> netloc result \<noteq> [])"

text \<open>\<^verbatim>\<open>api_helpers.extract_domain\<close>.\<close>

definition extract_domain :: "(string \<Rightarrow> bool) \<Rightarrow> string \<Rightarrow> string" where
  "extract_domain ip6 url =
     (if url = [] then []
      else if \<not> is_valid_url ip6 url
      then (if \<not> contains url ''/'' \<and> contains url ''.'' then strip url else [])
      else case urlparse ip6 url of
             Inl e \<Rightarrow> []
           | Inr parsed \<Rightarrow> netloc parsed)"

text \<open>
  \<^verbatim>\<open>parser_utils.extract_domain\<close>: no \<^verbatim>\<open>try\<close> surrounds the parser here, so its
  exception leaves the function.
\<close>

definition parser_extract_domain :: "(string \<Rightarrow> bool) \<Rightarrow> string \<Rightarrow> py_error + string" where
  "parser_extract_domain ip6 url =
     (if url = [] then Inr []
      else case urlparse ip6 url of
             Inl e \<Rightarrow> Inl e
           | Inr parsed \<Rightarrow>
               (let domain = (if netloc parsed \<noteq> [] then netloc parsed else path parsed)
                in Inr (lower (strip (replace ''www.'' [] domain)))))"

text \<open>
  \<^verbatim>\<open>parser_utils.normalize_company_name\<close>. The regular expression
  \<^verbatim>\<open>\s+(inc\.?|ltd\.?|corp\.?|co\.?)$\<close> with \<^verbatim>\<open>re.I\<close> matches at a position when the text
  from there on is a non-empty run of white space, one of the four words in any case with
  an optional period, and then the end of the text or one final newline. \<^verbatim>\<open>re.sub\<close>
  deletes the leftmost match; nothing can match after it.
\<close>

definition suffix_tokens :: "string list" where
  "suffix_tokens = [''inc'', ''inc.'', ''ltd'', ''ltd.'', ''corp'', ''corp.'', ''co'', ''co.'']"

definition suffix_match :: "string \<Rightarrow> bool" where
  "suffix_match r =
     (let t = dropWhile isspace r
      in takeWhile isspace r \<noteq> [] \<and>
         (lower t \<in> set suffix_tokens \<or>
          (t \<noteq> [] \<and> code (last t) = 10 \<and> lower (butlast t) \<in> set suffix_tokens)))"

fun re_sub_suffix :: "string \<Rightarrow> string" where
  "re_sub_suffix [] = []"
| "re_sub_suffix (c # cs) =
     (if suffix_match (c # cs)
      then (if lower (dropWhile isspace (c # cs)) \<in> set suffix_tokens
            then [] else [last cs])
      else c # re_sub_suffix cs)"

definition normalize_company_name :: "string \<Rightarrow> string" where
  "normalize_company_name name =
     (if name = [] then [] else py_title (re_sub_suffix (strip name)))"

text \<open>
  The specification's reading of \<^verbatim>\<open>normalize_company_name\<close>, to compare the code with: trim
  the name; when its last white-space-separated word is one of the legal-entity tokens (in
  any case, with or without the period) and a name stands before it, drop that word and
  the white space in front of it; put the rest in title case.
\<close>

definition spec_strip_suffix :: "string \<Rightarrow> string" where
  "spec_strip_suffix t =
     (let w = rev (takeWhile (\<lambda>c. \<not> isspace c) (rev t));
          rest = rev (dropWhile isspace (dropWhile (\<lambda>c. \<not> isspace c) (rev t)))
      in if lower w \<in> set suffix_tokens \<and> rest \<noteq> [] then rest else t)"

definition spec_normalize_company_name :: "string \<Rightarrow> string" where
  "spec_normalize_company_name s = py_title (spec_strip_suffix (strip s))"

text \<open>
  An \<^verbatim>\<open>ipaddress\<close> test that accepts no host. It stands for the parameter \<open>ip6\<close> where a
  closed statement is about a URL without brackets, which the parser never hands to it.
\<close>

definition reject_ip6 :: "string \<Rightarrow> bool" where
  "reject_ip6 h = False"

section \<open>The providers\<close>

text \<open>
  Everything outside the process is one value \<open>w\<close> of type \<open>world\<close>: the four API keys
  read from the environment when the module is loaded, and for each kind of request the
  reply to it. A reply is what \<^verbatim>\<open>_safe_get\<close> or \<^verbatim>\<open>_safe_post\<close> hands back after its two
  attempts: \<open>NoReply\<close> is its \<^verbatim>\<open>None\<close>, \<open>Malformed\<close> is a response whose body is not JSON
  or not of the shape the adapter reads (an exception inside the adapter's \<^verbatim>\<open>try\<close>), and
  \<open>Reply\<close> carries the decoded body: a record of the fields the adapter reads, each a
  text or a list of such records, as the provider documents it. A text field that is
  missing, null or empty is the empty string, a missing list is the empty list: the
  adapters read such fields only through \<^verbatim>\<open>x.get(k) or ...\<close>, which does not tell these
  apart. The same request gets the same reply throughout one run.
\<close>

datatype 'a reply = NoReply | Malformed | Reply 'a

text \<open>
  The chat-completion reply stays decoded JSON: both callers subscript it directly, with
  every subscript inside a \<^verbatim>\<open>try\<close>.
\<close>

datatype json = JNull | JBool bool | JNum int | JStr string | JList "json list"
  | JDict "(string \<times> json) list"

datatype raw_reply = NoRawReply | NotJson | Json json

text \<open>Truth value of a decoded JSON value, \<^verbatim>\<open>x[key]\<close>, \<^verbatim>\<open>x[0]\<close> and \<^verbatim>\<open>x.strip()\<close>.\<close>

fun truthy :: "json \<Rightarrow> bool" where
  "truthy JNull = False"
| "truthy (JBool b) = b"
| "truthy (JNum n) = (n \<noteq> 0)"
| "truthy (JStr s) = (s \<noteq> [])"
| "truthy (JList xs) = (xs \<noteq> [])"
| "truthy (JDict kvs) = (kvs \<noteq> [])"

fun getitem_key :: "json \<Rightarrow> string \<Rightarrow> py_error + json" where
  "getitem_key (JDict kvs) k = (case map_of kvs k of None \<Rightarrow> Inl KeyError | Some v \<Rightarrow> Inr v)"
| "getitem_key x k = Inl TypeError"

fun getitem_0 :: "json \<Rightarrow> py_error + json" where
  "getitem_0 (JList []) = Inl IndexError"
| "getitem_0 (JList (x # xs)) = Inr x"
| "getitem_0 (JStr []) = Inl IndexError"
| "getitem_0 (JStr (c # cs)) = Inr (JStr [c])"
| "getitem_0 (JDict kvs) = Inl KeyError"
| "getitem_0 x = Inl TypeError"

fun str_strip :: "json \<Rightarrow> py_error + string" where
  "str_strip (JStr s) = Inr (strip s)"
| "str_strip x = Inl AttributeError"

definition and_then :: "py_error + 'a \<Rightarrow> ('a \<Rightarrow> py_error + 'b) \<Rightarrow> py_error + 'b" where
  "and_then r f = (case r of Inl e \<Rightarrow> Inl e | Inr v \<Rightarrow> f v)"

text \<open>
  \<^verbatim>\<open>str(x)\<close> and \<^verbatim>\<open>repr(x)\<close> of a decoded value, which is how a formatted string literal
  prints it: a text prints as itself, and inside a list or dictionary in quotes, which
  are double quotes when the text has a single quote and no double quote, with the
  quote, the backslash and the control characters escaped. Numbers are integers, as the
  JSON decoder delivers them: it refuses a number of more than 4300 digits, and these are
  the only numbers that \<^verbatim>\<open>str\<close> refuses to print.
\<close>

function decimal :: "nat \<Rightarrow> string" where
  "decimal n = (if n < 10 then [char_of (48 + n)]
                else decimal (n div 10) @ [char_of (48 + n mod 10)])"
  by pat_completeness auto
termination
  by (relation "measure id") auto

declare decimal.simps [simp del]

definition hex_digit :: "nat \<Rightarrow> char" where
  "hex_digit n = (if n < 10 then char_of (48 + n) else char_of (87 + n))"

definition repr_char :: "char \<Rightarrow> char \<Rightarrow> string" where
  "repr_char quote c =
     (if c = quote \<or> c = CHR 0x5C then [CHR 0x5C, c]
      else if c = CHR 0x09 then [CHR 0x5C, CHR ''t'']
      else if c = CHR 0x0A then [CHR 0x5C, CHR ''n'']
      else if c = CHR 0x0D then [CHR 0x5C, CHR ''r'']
      else if code c < 32 \<or> code c = 127
      then [CHR 0x5C, CHR ''x'', hex_digit (code c div 16), hex_digit (code c mod 16)]
      else [c])"

definition repr_str :: "string \<Rightarrow> string" where
  "repr_str s =
     (let quote = (if CHR 0x27 \<in> set s \<and> CHR 0x22 \<notin> set s then CHR 0x22 else CHR 0x27)
      in [quote] @ concat (map (repr_char quote) s) @ [quote])"

fun py_repr :: "json \<Rightarrow> string" where
  "py_repr JNull = ''None''"
| "py_repr (JBool b) = (if b then ''True'' else ''False'')"
| "py_repr (JNum n) = (if n < 0 then ''-'' @ decimal (nat (- n)) else decimal (nat n))"
| "py_repr (JStr s) = repr_str s"
| "py_repr (JList xs) = ''['' @ join '', '' (map py_repr xs) @ '']''"
| "py_repr (JDict kvs) =
     ''{'' @ join '', '' (map (\<lambda>kv. repr_str (fst kv) @ '': '' @ py_repr (snd kv)) kvs) @ ''}''"

fun py_str :: "json \<Rightarrow> string" where
  "py_str (JStr s) = s"
| "py_str x = py_repr x"

text \<open>
  \<^verbatim>\<open>d.get(key, default)\<close> on a dictionary of decoded values, which lists each key once,
  and the same call on any decoded value: only a dictionary has the method.
\<close>

definition get_or :: "(string \<times> json) list \<Rightarrow> string \<Rightarrow> json \<Rightarrow> json" where
  "get_or d k dflt = (case map_of d k of None \<Rightarrow> dflt | Some v \<Rightarrow> v)"

fun value_get :: "json \<Rightarrow> string \<Rightarrow> json \<Rightarrow> py_error + json" where
  "value_get (JDict kvs) k dflt = Inr (get_or kvs k dflt)"
| "value_get x k dflt = Inl AttributeError"

text \<open>
  The items that \<^verbatim>\<open>for n in x[:3]\<close> runs over, and those that \<^verbatim>\<open>', '.join(x)\<close> joins: a
  list and a text can be sliced, a dictionary and a number cannot; a list of texts, the
  characters of a text and the keys of a dictionary can be joined.
\<close>

fun slice_3 :: "json \<Rightarrow> py_error + json list" where
  "slice_3 (JList xs) = Inr (take 3 xs)"
| "slice_3 (JStr s) = Inr (map (\<lambda>c. JStr [c]) (take 3 s))"
| "slice_3 x = Inl TypeError"

fun strings :: "json list \<Rightarrow> py_error + string list" where
  "strings [] = Inr []"
| "strings (JStr s # xs) = and_then (strings xs) (\<lambda>rest. Inr (s # rest))"
| "strings (x # xs) = Inl TypeError"

fun join_items :: "json \<Rightarrow> py_error + string list" where
  "join_items (JList xs) = strings xs"
| "join_items (JStr s) = Inr (map (\<lambda>c. [c]) s)"
| "join_items (JDict kvs) = Inr (map fst kvs)"
| "join_items x = Inl TypeError"

text \<open>
  A dictionary with text values that the code builds itself (an article, a search hit,
  the brand data), in insertion order, and \<^verbatim>\<open>d.get(key, default)\<close> on it.
\<close>

type_synonym pydict = "(string \<times> string) list"

definition dict_get :: "pydict \<Rightarrow> string \<Rightarrow> string \<Rightarrow> string" where
  "dict_get d k dflt = (case map_of d k of None \<Rightarrow> dflt | Some v \<Rightarrow> v)"

text \<open>
  The parsed page, as far as \<^verbatim>\<open>scrape_website_content\<close> reads it, after the script, style,
  nav, header and footer elements are removed: the text of the first title element, the
  content attribute of the description meta element (empty when the attribute is
  missing), the texts of the h1 elements, of the first p element, of the first element
  matching each content selector, and of the body. \<open>None\<close> is an element that is not there.
\<close>

record soup =
  find_title :: "string option"
  find_meta_description :: "string option"
  find_all_h1 :: "string list"
  find_p :: "string option"
  select_one :: "string \<Rightarrow> string option"
  find_body :: "string option"

text \<open>The instant-answer reply; a related topic that is not a dictionary is \<open>NotADict\<close>.\<close>

record ddg_topic =
  Text :: string
  Result :: string
  FirstURL :: string

datatype ddg_entry = Topic ddg_topic | NotADict

record ddg_body =
  AbstractText :: string
  Heading :: string
  AbstractURL :: string
  RelatedTopics :: "ddg_entry list"

text \<open>The brand reply, the news reply and the search reply.\<close>

record brand_logo =
  logo_url :: string
  logo_src :: string

record brand_body =
  logos :: "brand_logo list"
  brand_name :: string

record news_item =
  item_title :: string
  item_headline :: string
  item_link :: string
  item_url :: string

record news_body =
  news_results :: "news_item list"
  news_articles :: "news_item list"

record serper_item =
  hit_title :: string
  hit_label :: string
  hit_snippet :: string
  hit_description :: string
  hit_snippetText :: string
  hit_link :: string
  hit_url :: string
  hit_source :: string

record serper_body =
  organic :: "serper_item list"
  results :: "serper_item list"
  organic_results :: "serper_item list"

text \<open>
  The two chat-completion payloads differ in their fixed settings and in the prompt; a
  payload is represented by the texts put into the holes of its prompt template.
\<close>

datatype groq_request = IndustryRequest string string | InsightRequest string string

record world =
  ipaddress_ip6 :: "string \<Rightarrow> bool"
  BRANDFETCH_API_KEY :: "string option"
  NEWSDATA_API_KEY :: "string option"
  SERPER_API_KEY :: "string option"
  GROQ_API_KEY :: "string option"
  get_website :: "string \<Rightarrow> soup reply"
  get_duckduckgo :: "string \<Rightarrow> bool \<Rightarrow> ddg_body reply"
  get_brandfetch :: "string \<Rightarrow> brand_body reply"
  get_newsdata :: "string \<Rightarrow> news_body reply"
  post_serper :: "string \<Rightarrow> int \<Rightarrow> serper_body reply"
  post_groq :: "groq_request \<Rightarrow> raw_reply"

text \<open>\<^verbatim>\<open>not KEY\<close> for a key read with \<^verbatim>\<open>os.getenv\<close>: unset or empty.\<close>

definition key_missing :: "string option \<Rightarrow> bool" where
  "key_missing k = (case k of None \<Rightarrow> True | Some s \<Rightarrow> s = [])"

text \<open>\<^verbatim>\<open>a or b\<close> on text, and a Python slice \<^verbatim>\<open>xs[:n]\<close> for any integer \<open>n\<close>.\<close>

definition por :: "string \<Rightarrow> string \<Rightarrow> string" where
  "por a b = (if a \<noteq> [] then a else b)"

definition slice_to :: "int \<Rightarrow> 'a list \<Rightarrow> 'a list" where
  "slice_to n xs = (if 0 \<le> n then take (nat n) xs else take (length xs - nat (- n)) xs)"

definition nl :: string where
  "nl = [CHR 0x0A]"

section \<open>Search and language-model adapters\<close>

text \<open>\<^verbatim>\<open>_fetch_serper_organic\<close>: one search hit becomes a dictionary of three texts.\<close>

definition serper_context_item :: "serper_item \<Rightarrow> pydict" where
  "serper_context_item item =
     (let title = por (hit_title item) (por (hit_label item) []);
          snippet = por (hit_snippet item) (por (hit_description item)
                      (por (hit_snippetText item) []));
          link0 = por (hit_link item) (por (hit_url item) (por (hit_source item) []));
          link = (if link0 \<noteq> [] \<and> \<not> startswith link0 ''http''
                  then ''https://'' @ dropWhile (\<lambda>c. c = CHR ''/'') link0 else link0)
      in [(''title'', strip title), (''content'', strip snippet), (''source'', strip link)])"

definition fetch_serper_organic :: "world \<Rightarrow> string \<Rightarrow> int \<Rightarrow> pydict list" where
  "fetch_serper_organic w q num =
     (if key_missing (SERPER_API_KEY w) then []
      else case post_serper w q num of
             NoReply \<Rightarrow> []
           | Malformed \<Rightarrow> []
           | Reply data \<Rightarrow>
               (let hits = (if organic data \<noteq> [] then organic data
                            else if results data \<noteq> [] then results data
                            else if organic_results data \<noteq> [] then organic_results data
                            else [])
                in map serper_context_item hits))"

definition fetch_strategic_context :: "world \<Rightarrow> string \<Rightarrow> string \<Rightarrow> pydict list" where
  "fetch_strategic_context w company_name industry =
     (let disambiguation_terms = '' company tech startup business inc'';
          strategic_queries =
            [company_name @ disambiguation_terms @ '' competitors market position'',
             company_name @ disambiguation_terms @ '' growth funding '' @ industry,
             ''\"'' @ company_name @ ''\" company business model'']
      in concat (map (\<lambda>q. fetch_serper_organic w q 2) (take 2 strategic_queries)))"

text \<open>\<^verbatim>\<open>_call_groq_chat\<close>: \<open>None\<close> is its \<^verbatim>\<open>None\<close>.\<close>

definition call_groq_chat :: "world \<Rightarrow> groq_request \<Rightarrow> json option" where
  "call_groq_chat w payload =
     (if key_missing (GROQ_API_KEY w) then None
      else case post_groq w payload of
             NoRawReply \<Rightarrow> None
           | NotJson \<Rightarrow> None
           | Json j \<Rightarrow> Some j)"

text \<open>\<^verbatim>\<open>resp["choices"][0]["message"]["content"].strip()\<close>, with the exception it may raise.\<close>

definition message_content :: "json \<Rightarrow> py_error + string" where
  "message_content resp =
     and_then (getitem_key resp ''choices'') (\<lambda>choices.
     and_then (getitem_0 choices) (\<lambda>choice.
     and_then (getitem_key choice ''message'') (\<lambda>message.
     and_then (getitem_key message ''content'') str_strip)))"

definition infer_industry :: "world \<Rightarrow> string \<Rightarrow> string \<Rightarrow> string" where
  "infer_industry w company_name summary =
     (case call_groq_chat w
             (IndustryRequest company_name (por summary ''No summary available.'')) of
        None \<Rightarrow> ''Unknown''
      | Some resp \<Rightarrow>
          if \<not> truthy resp then ''Unknown''
          else case message_content resp of
                 Inl e \<Rightarrow> ''Unknown''
               | Inr content \<Rightarrow> content)"

section \<open>The source adapters\<close>

subsection \<open>Website content\<close>

definition content_selectors :: "string list" where
  "content_selectors = [''main'', ''article'', ''.content'', ''#content'', ''.main-content'']"

text \<open>The loop over the content selectors: the first one with more than 50 characters.\<close>

fun first_substantial :: "soup \<Rightarrow> string list \<Rightarrow> string" where
  "first_substantial page [] = []"
| "first_substantial page (selector # selectors) =
     (case select_one page selector of
        None \<Rightarrow> first_substantial page selectors
      | Some text \<Rightarrow>
          (let main_text = strip text
           in if 50 < length main_text then take 500 main_text
              else first_substantial page selectors))"

definition extract_title :: "soup \<Rightarrow> string" where
  "extract_title page = (case find_title page of None \<Rightarrow> [] | Some t \<Rightarrow> strip t)"

definition extract_description :: "soup \<Rightarrow> string" where
  "extract_description page =
     (case find_meta_description page of None \<Rightarrow> [] | Some c \<Rightarrow> strip c)"

definition extract_headings :: "soup \<Rightarrow> string list" where
  "extract_headings page = map strip (take 2 (find_all_h1 page))"

definition extract_first_paragraph :: "soup \<Rightarrow> string" where
  "extract_first_paragraph page =
     (case find_p page of None \<Rightarrow> [] | Some t \<Rightarrow> take 300 (strip t))"

definition extract_main_content :: "soup \<Rightarrow> string" where
  "extract_main_content page =
     (let found = first_substantial page content_selectors;
          main_content =
            (if found = []
             then (case find_body page of None \<Rightarrow> [] | Some b \<Rightarrow> take 500 (strip b))
             else found)
      in if main_content \<noteq> [] then join '' '' (split_ws main_content) else main_content)"

definition website_sentinel :: string where
  "website_sentinel = ''Website content extracted but limited text available''"

definition page_summary :: "soup \<Rightarrow> string" where
  "page_summary page =
     (let summary_parts =
            (if extract_title page \<noteq> [] then [''Title: '' @ extract_title page] else []) @
            (if extract_description page \<noteq> []
             then [''Description: '' @ extract_description page] else []) @
            (if extract_headings page \<noteq> []
             then [''Headings: '' @ join '', '' (extract_headings page)] else []) @
            (if extract_main_content page \<noteq> []
             then [''Content: '' @ extract_main_content page]
             else if extract_first_paragraph page \<noteq> []
             then [''Content: '' @ extract_first_paragraph page] else []);
          joined = join '' | '' (filter (\<lambda>part. part \<noteq> []) summary_parts)
      in if joined \<noteq> [] then joined else website_sentinel)"

definition scrape_website_content :: "world \<Rightarrow> string \<Rightarrow> string" where
  "scrape_website_content w url =
     (if url = [] \<or> \<not> is_valid_url (ipaddress_ip6 w) url then []
      else case get_website w url of
             NoReply \<Rightarrow> []
           | Malformed \<Rightarrow> []
           | Reply page \<Rightarrow> page_summary page)"

subsection \<open>Brand lookup\<close>

definition fetch_brandfetch_data :: "world \<Rightarrow> string \<Rightarrow> pydict" where
  "fetch_brandfetch_data w domain =
     (if domain = [] then []
      else if key_missing (BRANDFETCH_API_KEY w) then []
      else case get_brandfetch w domain of
             NoReply \<Rightarrow> []
           | Malformed \<Rightarrow> []
           | Reply data \<Rightarrow>
               (let logo_url =
                      (case logos data of
                         [] \<Rightarrow> []
                       | l # ls \<Rightarrow> por (brand_logo.logo_url l) (por (logo_src l) []));
                    name = por (brand_name data) domain
                in [(''logo'', por logo_url []), (''name'', name)]))"

text \<open>The loop over the domain variations, left at the first one that yields a name.\<close>

fun try_variations :: "world \<Rightarrow> string \<Rightarrow> pydict \<Rightarrow> string list \<Rightarrow> pydict" where
  "try_variations w clean_domain brand_data [] = brand_data"
| "try_variations w clean_domain brand_data (variation # variations) =
     (if variation \<noteq> clean_domain
      then (let alt_data = fetch_brandfetch_data w variation
            in if dict_get alt_data ''name'' [] \<noteq> [] then alt_data
               else try_variations w clean_domain brand_data variations)
      else try_variations w clean_domain brand_data variations)"

definition fetch_brandfetch_data_enhanced :: "world \<Rightarrow> string \<Rightarrow> pydict" where
  "fetch_brandfetch_data_enhanced w domain =
     (if domain = [] then []
      else (let clean_domain = hd (split_on CHR ''/'' (replace ''www.'' [] domain));
                brand_data = fetch_brandfetch_data w clean_domain
            in if dict_get brand_data ''name'' [] = [] \<and> contains clean_domain ''.''
               then try_variations w clean_domain brand_data
                      [clean_domain, ''www.'' @ clean_domain,
                       replace ''.com'' ''.co'' clean_domain,
                       replace ''.io'' ''.com'' clean_domain]
               else brand_data))"

subsection \<open>Summary lookup\<close>

definition summary_common_words :: "string list" where
  "summary_common_words = [''stochastic'', ''quantum'', ''vector'', ''matrix'', ''alpha'',
     ''beta'', ''gamma'', ''delta'', ''sigma'', ''lambda'', ''omega'', ''zen'', ''nova'',
     ''pulse'', ''flux'']"

definition company_indicators :: "string list" where
  "company_indicators = [''company'', ''startup'', ''tech'', ''business'', ''inc'', ''corp'',
     ''ltd'', ''founder'', ''CEO'', ''venture'']"

text \<open>\<^verbatim>\<open>any(indicator in text.lower() for indicator in indicators)\<close>.\<close>

definition any_indicator :: "string list \<Rightarrow> string \<Rightarrow> bool" where
  "any_indicator indicators text = list_ex (\<lambda>indicator. contains (lower text) indicator) indicators"

text \<open>
  The first half of \<^verbatim>\<open>fetch_duckduckgo_summary\<close>: the summary taken from the primary
  fields, and the local variable \<^verbatim>\<open>company_indicators\<close>, which is assigned only inside
  \<^verbatim>\<open>if summary:\<close>. \<open>None\<close> is the variable left unassigned.
\<close>

definition primary_summary :: "ddg_body \<Rightarrow> string \<times> string list option" where
  "primary_summary data =
     (let summary = por (AbstractText data) (por (Heading data) [])
      in if summary \<noteq> []
         then (let is_conceptual = any_indicator company_indicators summary
               in (if \<not> is_conceptual \<and> 20 < length (split_ws summary) then [] else summary,
                   Some company_indicators))
         else (summary, None))"

text \<open>
  The loop over the related topics. Reading the unassigned variable raises
  \<^verbatim>\<open>UnboundLocalError\<close>; the loop ends without a result as the empty summary.
\<close>

fun scan_related :: "string list option \<Rightarrow> ddg_entry list \<Rightarrow> py_error + string" where
  "scan_related indicators [] = Inr []"
| "scan_related indicators (NotADict # rs) = scan_related indicators rs"
| "scan_related indicators (Topic r # rs) =
     (let t = por (Text r) (por (Result r) [])
      in if t \<noteq> []
         then (case indicators of
                 None \<Rightarrow> Inl UnboundLocalError
               | Some bound \<Rightarrow>
                   if any_indicator bound t then Inr t else scan_related indicators rs)
         else scan_related indicators rs)"

definition fetch_duckduckgo_summary :: "world \<Rightarrow> string \<Rightarrow> string" where
  "fetch_duckduckgo_summary w company =
     (let q = (if lower company \<in> set summary_common_words
               then company @ '' company tech startup business'' else company)
      in case get_duckduckgo w q True of
           NoReply \<Rightarrow> []
         | Malformed \<Rightarrow> []
         | Reply data \<Rightarrow>
             (case primary_summary data of
                (summary, indicators) \<Rightarrow>
                  if summary = []
                  then (case scan_related indicators (RelatedTopics data) of
                          Inl e \<Rightarrow> []
                        | Inr found \<Rightarrow> found)
                  else summary))"

subsection \<open>News lookup\<close>

definition news_common_words :: "string list" where
  "news_common_words = [''stochastic'', ''quantum'', ''vector'', ''matrix'', ''alpha'', ''beta'']"

definition news_article :: "news_item \<Rightarrow> pydict list" where
  "news_article a =
     (let title = por (item_title a) (por (item_headline a) []);
          link = por (item_link a) (por (item_url a) [])
      in if title \<noteq> [] then [[(''title'', title), (''link'', link)]] else [])"

definition fetch_news_articles :: "world \<Rightarrow> string \<Rightarrow> int \<Rightarrow> pydict list" where
  "fetch_news_articles w company limit =
     (if key_missing (NEWSDATA_API_KEY w) then []
      else (let q = (if lower company \<in> set news_common_words
                     then ''\"'' @ company @ ''\" company OR \"'' @ company @
                          ''\" startup OR \"'' @ company @ ''\" tech''
                     else company)
            in case get_newsdata w q of
                 NoReply \<Rightarrow> []
               | Malformed \<Rightarrow> []
               | Reply data \<Rightarrow>
                   (let found = (if news_results data \<noteq> [] then news_results data
                                 else if news_articles data \<noteq> [] then news_articles data
                                 else [])
                    in concat (map news_article (slice_to limit found)))))"

text \<open>The key two articles are compared by, and the loop that keeps first occurrences.\<close>

definition title_key :: "pydict \<Rightarrow> string" where
  "title_key article = strip (lower (dict_get article ''title'' []))"

fun unique_articles :: "string set \<Rightarrow> pydict list \<Rightarrow> pydict list" where
  "unique_articles seen_titles [] = []"
| "unique_articles seen_titles (article # articles) =
     (if title_key article \<noteq> [] \<and> title_key article \<notin> seen_titles
      then article # unique_articles (insert (title_key article) seen_titles) articles
      else unique_articles seen_titles articles)"

definition clean_news_domain :: "string \<Rightarrow> string" where
  "clean_news_domain domain =
     hd (split_on CHR ''/''
           (replace ''http://'' [] (replace ''https://'' [] (replace ''www.'' [] domain))))"

definition gathered_articles :: "world \<Rightarrow> string \<Rightarrow> string \<Rightarrow> int \<Rightarrow> pydict list" where
  "gathered_articles w company domain limit =
     (if company \<noteq> [] then fetch_news_articles w company limit else []) @
     (if domain \<noteq> [] \<and> \<not> contains company domain
      then fetch_news_articles w (clean_news_domain domain) limit else [])"

definition fetch_news_articles_enhanced ::
  "world \<Rightarrow> string \<Rightarrow> string \<Rightarrow> int \<Rightarrow> pydict list" where
  "fetch_news_articles_enhanced w company domain limit =
     slice_to limit (unique_articles {} (gathered_articles w company domain limit))"

section \<open>The research record and the insight synthesizer\<close>

text \<open>
  The dictionary that \<^verbatim>\<open>research_company_thoroughly\<close> builds and returns, with all its
  keys.
\<close>

record research =
  company_name :: string
  website :: string
  canonical_name :: string
  summary :: string
  news :: "pydict list"
  logo :: string
  industry :: string
  sources_used :: "string list"

text \<open>
  \<^verbatim>\<open>generate_ai_insight\<close> takes a dictionary of any values: the router passes it the
  request body, in which \<^verbatim>\<open>news\<close> is a list of anything. Such a dictionary is a list of
  keys with decoded values; \<open>lead_of\<close> is the research record as such a dictionary.
\<close>

definition article_value :: "pydict \<Rightarrow> json" where
  "article_value article = JDict (map (\<lambda>kv. (fst kv, JStr (snd kv))) article)"

definition lead_of :: "research \<Rightarrow> (string \<times> json) list" where
  "lead_of r =
     [(''company_name'', JStr (company_name r)), (''website'', JStr (website r)),
      (''canonical_name'', JStr (canonical_name r)), (''summary'', JStr (summary r)),
      (''news'', JList (map article_value (news r))), (''logo'', JStr (logo r)),
      (''industry'', JStr (industry r)),
      (''sources_used'', JList (map JStr (sources_used r)))]"

definition analysis_failed :: string where
  "analysis_failed =
     ''Analysis generation failed. Please check the company website and try again.''"

definition analysis_truncated :: string where
  "analysis_truncated =
     ''Analysis was truncated. Please try again with the 'Strategic Research' option disabled, or provide a company website for more focused analysis.''"

definition analysis_error :: string where
  "analysis_error = ''Analysis generation failed due to technical error.''"

text \<open>
  The line of one news item, and the list comprehension over the news items: an item
  that is not a dictionary has no \<^verbatim>\<open>get\<close>.
\<close>

definition news_line :: "json \<Rightarrow> py_error + string" where
  "news_line n =
     and_then (value_get n ''title'' (JStr [])) (\<lambda>title.
     and_then (value_get n ''link'' (JStr [])) (\<lambda>link.
     Inr (''- **'' @ py_str title @ ''** - '' @ py_str link)))"

fun news_lines :: "json list \<Rightarrow> py_error + string list" where
  "news_lines [] = Inr []"
| "news_lines (n # ns) =
     and_then (news_line n) (\<lambda>line.
     and_then (news_lines ns) (\<lambda>lines. Inr (line # lines)))"

text \<open>
  The context block that \<^verbatim>\<open>generate_ai_insight\<close> puts into its prompt. It is built before
  the \<^verbatim>\<open>try\<close> of the function, so an exception raised here leaves the function.
\<close>

definition insight_context :: "world \<Rightarrow> (string \<times> json) list \<Rightarrow> bool \<Rightarrow> py_error + string" where
  "insight_context w enriched_lead include_strategic_context =
     (let company = get_or enriched_lead ''company_name'' (JStr []);
          canonical_name = get_or enriched_lead ''canonical_name'' company;
          summary = get_or enriched_lead ''summary'' (JStr []);
          industry = get_or enriched_lead ''industry'' (JStr []);
          website = get_or enriched_lead ''website'' (JStr []);
          news = get_or enriched_lead ''news'' (JList []);
          sources = get_or enriched_lead ''sources_used'' (JList [])
      in and_then
           (if truthy news
            then and_then (slice_3 news) (\<lambda>items.
                 and_then (news_lines items) (\<lambda>lines.
                 Inr [''## Recent News & Mentions'' @ nl @ join nl lines]))
            else Inr [])
           (\<lambda>news_part.
         and_then
           (if truthy sources
            then and_then (join_items sources) (\<lambda>items.
                 Inr [''## Research Sources'' @ nl @ join '', '' items])
            else Inr [])
           (\<lambda>sources_part.
         (let strategic_data =
                (if include_strategic_context
                 then fetch_strategic_context w (py_str canonical_name) (py_str industry)
                 else []);
              context_parts =
                (if truthy summary
                 then [''## Company Overview'' @ nl @ py_str summary] else []) @
                (if truthy website
                 then [''## Website'' @ nl @ py_str website] else []) @
                news_part @
                (if truthy industry \<and> industry \<noteq> JStr ''Unknown''
                 then [''## Industry'' @ nl @ py_str industry] else []) @
                sources_part @
                (if strategic_data \<noteq> []
                 then [''## Market Context'' @ nl @
                       join nl (map (\<lambda>item. ''- '' @ dict_get item ''title'' [] @ '': '' @
                                             dict_get item ''content'' [])
                                  (take 2 strategic_data))]
                 else [])
          in Inr (if context_parts \<noteq> [] then join (nl @ nl) context_parts
                  else ''No detailed public information found through automated research.'')))))"

text \<open>The test for a reply that was cut off, on the trimmed content.\<close>

definition looks_truncated :: "string \<Rightarrow> bool" where
  "looks_truncated content =
     (content \<noteq> [] \<and>
      \<not> (endswith content ''.'' \<or> endswith content ''!'' \<or> endswith content ''?'') \<and>
      300 < length (split_ws content))"

definition insight_payload ::
  "world \<Rightarrow> (string \<times> json) list \<Rightarrow> bool \<Rightarrow> py_error + groq_request" where
  "insight_payload w enriched_lead include_strategic_context =
     and_then (insight_context w enriched_lead include_strategic_context) (\<lambda>context.
     Inr (InsightRequest
            (py_str (get_or enriched_lead ''canonical_name''
                       (get_or enriched_lead ''company_name'' (JStr []))))
            context))"

definition generate_ai_insight ::
  "world \<Rightarrow> (string \<times> json) list \<Rightarrow> bool \<Rightarrow> py_error + string" where
  "generate_ai_insight w enriched_lead include_strategic_context =
     and_then (insight_payload w enriched_lead include_strategic_context) (\<lambda>payload.
       case call_groq_chat w payload of
         None \<Rightarrow> Inr analysis_failed
       | Some resp \<Rightarrow>
           if \<not> truthy resp then Inr analysis_failed
           else case message_content resp of
                  Inl e \<Rightarrow> Inr analysis_error
                | Inr content \<Rightarrow>
                    Inr (if looks_truncated content then analysis_truncated else content))"

section \<open>Website discovery and the research aggregator\<close>

text \<open>
  The part of \<^verbatim>\<open>find_official_website\<close> that reads the instant-answer reply: the URL it
  returns from there, if any.
\<close>

definition website_common_words :: "string list" where
  "website_common_words = [''stochastic'', ''quantum'', ''vector'', ''matrix'', ''alpha'', ''beta'']"

definition answer_url :: "ddg_body \<Rightarrow> string option" where
  "answer_url data =
     (let abs_url = (if AbstractURL data \<noteq> [] then Some (AbstractURL data) else None)
      in case RelatedTopics data of
           Topic first # rest \<Rightarrow> if FirstURL first \<noteq> [] then Some (FirstURL first) else abs_url
         | other \<Rightarrow> abs_url)"

text \<open>The company name read as a bare domain.\<close>

definition name_as_url :: "world \<Rightarrow> string \<Rightarrow> string option" where
  "name_as_url w company =
     (if contains company ''.'' \<and> 2 \<le> length (split_on CHR ''.'' company)
      then (let candidate = strip company
            in if is_valid_url (ipaddress_ip6 w) candidate then Some candidate
               else (let candidate2 = (if \<not> startswith candidate ''http''
                                       then ''https://'' @ candidate else candidate)
                     in if is_valid_url (ipaddress_ip6 w) candidate2 then Some candidate2
                        else None))
      else None)"

text \<open>The loop over the search hits of the last fallback.\<close>

fun first_plausible_source :: "string \<Rightarrow> pydict list \<Rightarrow> string option" where
  "first_plausible_source company [] = None"
| "first_plausible_source company (item # items) =
     (let source = dict_get item ''source'' []
      in if contains (lower source) (lower company) \<or>
            list_ex (\<lambda>tld. contains source tld) [''.com'', ''.io'', ''.co'', ''.ai'']
         then Some source
         else first_plausible_source company items)"

definition find_official_website :: "world \<Rightarrow> string \<Rightarrow> string" where
  "find_official_website w company =
     (let q = (if lower company \<in> set website_common_words
               then company @ '' company official website tech startup''
               else company @ '' official website'');
          answered = (case get_duckduckgo w q False of
                        NoReply \<Rightarrow> None
                      | Malformed \<Rightarrow> None
                      | Reply data \<Rightarrow> answer_url data)
      in case answered of
           Some u \<Rightarrow> u
         | None \<Rightarrow>
             (case name_as_url w company of
                Some u \<Rightarrow> u
              | None \<Rightarrow>
                  (case first_plausible_source company (fetch_strategic_context w company []) of
                     Some u \<Rightarrow> u
                   | None \<Rightarrow> [])))"

text \<open>
  \<^verbatim>\<open>research_company_thoroughly\<close> runs seven steps one after the other on its local
  variables: the dictionary \<^verbatim>\<open>results\<close>, the website (an argument that the first step may
  overwrite), the domain and the website content. The last two are assigned by the
  second and the fourth step and read only afterwards; they start as empty text here.
\<close>

record locals =
  results :: research
  site :: string
  domain :: string
  website_content :: string

definition initial_locals :: "string \<Rightarrow> string \<Rightarrow> locals" where
  "initial_locals name url =
     \<lparr>results = \<lparr>company_name = name, website = url, canonical_name = name, summary = [],
                  news = [], logo = [], industry = [], sources_used = []\<rparr>,
      site = url, domain = [], website_content = []\<rparr>"

text \<open>\<^verbatim>\<open>results["sources_used"].append(label)\<close>.\<close>

definition record_source :: "string \<Rightarrow> research \<Rightarrow> research" where
  "record_source label r = r\<lparr>sources_used := sources_used r @ [label]\<rparr>"

definition discover_website :: "world \<Rightarrow> string \<Rightarrow> locals \<Rightarrow> locals" where
  "discover_website w name st =
     (if site st = []
      then (let found = find_official_website w name
            in st\<lparr>site := found, results := (results st)\<lparr>website := found\<rparr>\<rparr>)
      else st)"

definition derive_domain :: "world \<Rightarrow> string \<Rightarrow> locals \<Rightarrow> locals" where
  "derive_domain w name st =
     st\<lparr>domain := (if site st \<noteq> [] then extract_domain (ipaddress_ip6 w) (site st) else [])\<rparr>"

definition brand_stage :: "world \<Rightarrow> string \<Rightarrow> locals \<Rightarrow> locals" where
  "brand_stage w name st =
     (if domain st \<noteq> []
      then (let brand_data = fetch_brandfetch_data_enhanced w (domain st)
            in if brand_data \<noteq> []
               then st\<lparr>results := record_source ''Brandfetch''
                      ((results st)\<lparr>logo := dict_get brand_data ''logo'' [],
                                    canonical_name := dict_get brand_data ''name'' name\<rparr>)\<rparr>
               else st)
      else st)"

definition content_stage :: "world \<Rightarrow> string \<Rightarrow> locals \<Rightarrow> locals" where
  "content_stage w name st =
     (if site st \<noteq> []
      then (let scraped = scrape_website_content w (site st)
            in if scraped \<noteq> []
               then st\<lparr>website_content := scraped,
                       results := record_source ''Website Content'' (results st)\<rparr>
               else st\<lparr>website_content := scraped\<rparr>)
      else st\<lparr>website_content := []\<rparr>)"

definition summary_stage :: "world \<Rightarrow> string \<Rightarrow> locals \<Rightarrow> locals" where
  "summary_stage w name st =
     (let ddg_summary = fetch_duckduckgo_summary w (canonical_name (results st))
      in if ddg_summary \<noteq> []
         then st\<lparr>results := record_source ''DuckDuckGo''
                ((results st)\<lparr>summary := ddg_summary\<rparr>)\<rparr>
         else if website_content st \<noteq> []
         then st\<lparr>results := record_source ''Website Summary''
                ((results st)\<lparr>summary := website_content st\<rparr>)\<rparr>
         else st)"

definition news_stage :: "world \<Rightarrow> string \<Rightarrow> locals \<Rightarrow> locals" where
  "news_stage w name st =
     (let news_articles =
            fetch_news_articles_enhanced w (canonical_name (results st)) (domain st) 5
      in if news_articles \<noteq> []
         then st\<lparr>results := record_source ''NewsData''
                ((results st)\<lparr>news := news_articles\<rparr>)\<rparr>
         else st)"

definition industry_stage :: "world \<Rightarrow> string \<Rightarrow> locals \<Rightarrow> locals" where
  "industry_stage w name st =
     (if summary (results st) \<noteq> []
      then st\<lparr>results := record_source ''AI Industry Classification''
             ((results st)\<lparr>industry := infer_industry w (canonical_name (results st))
                                          (summary (results st))\<rparr>)\<rparr>
      else st)"

definition research_company_thoroughly :: "world \<Rightarrow> string \<Rightarrow> string \<Rightarrow> research" where
  "research_company_thoroughly w name url =
     results (industry_stage w name (news_stage w name (summary_stage w name
       (content_stage w name (brand_stage w name (derive_domain w name
         (discover_website w name (initial_locals name url))))))))"

text \<open>
  The seven steps in their order, the state after the first \<open>k\<close> of them, and the labels a
  run can record, in the order of the steps that record them.
\<close>

definition stages :: "(world \<Rightarrow> string \<Rightarrow> locals \<Rightarrow> locals) list" where
  "stages = [discover_website, derive_domain, brand_stage, content_stage, summary_stage,
     news_stage, industry_stage]"

definition after_stages :: "nat \<Rightarrow> world \<Rightarrow> string \<Rightarrow> string \<Rightarrow> locals" where
  "after_stages k w name url =
     fold (\<lambda>stage st. stage w name st) (take k stages) (initial_locals name url)"

definition stage_labels :: "string list" where
  "stage_labels = [''Brandfetch'', ''Website Content'', ''DuckDuckGo'', ''Website Summary'',
     ''NewsData'', ''AI Industry Classification'']"

text \<open>
  The content text of a chat-completion reply of the expected shape
  \<^verbatim>\<open>{"choices": [{"message": {"content": "..."}}, ...]}\<close>, and \<open>None\<close> for any other reply.
\<close>

definition reply_content :: "json \<Rightarrow> string option" where
  "reply_content resp =
     (case resp of
        JDict d \<Rightarrow>
          (case map_of d ''choices'' of
             Some (JList (JDict c # cs)) \<Rightarrow>
               (case map_of c ''message'' of
                  Some (JDict m) \<Rightarrow>
                    (case map_of m ''content'' of Some (JStr raw) \<Rightarrow> Some raw | _ \<Rightarrow> None)
                | _ \<Rightarrow> None)
           | _ \<Rightarrow> None)
      | _ \<Rightarrow> None)"

section \<open>What one run works with\<close>

text \<open>
  As functions of the arguments of \<^verbatim>\<open>research_company_thoroughly\<close>: the website (given or
  discovered), the domain derived from it, the name after the brand lookup, what the
  website-content adapter returned, and the summary; and for each recording step the
  label it appends, if any.
\<close>

definition effective_website :: "world \<Rightarrow> string \<Rightarrow> string \<Rightarrow> string" where
  "effective_website w name url = (if url = [] then find_official_website w name else url)"

definition effective_domain :: "world \<Rightarrow> string \<Rightarrow> string \<Rightarrow> string" where
  "effective_domain w name url =
     (if effective_website w name url \<noteq> []
      then extract_domain (ipaddress_ip6 w) (effective_website w name url) else [])"

definition effective_name :: "world \<Rightarrow> string \<Rightarrow> string \<Rightarrow> string" where
  "effective_name w name url =
     (let brand_data = fetch_brandfetch_data_enhanced w (effective_domain w name url)
      in if effective_domain w name url \<noteq> [] \<and> brand_data \<noteq> []
         then dict_get brand_data ''name'' name else name)"

definition effective_content :: "world \<Rightarrow> string \<Rightarrow> string \<Rightarrow> string" where
  "effective_content w name url =
     (if effective_website w name url \<noteq> []
      then scrape_website_content w (effective_website w name url) else [])"

definition effective_summary :: "world \<Rightarrow> string \<Rightarrow> string \<Rightarrow> string" where
  "effective_summary w name url =
     (if fetch_duckduckgo_summary w (effective_name w name url) \<noteq> []
      then fetch_duckduckgo_summary w (effective_name w name url)
      else effective_content w name url)"

definition brand_label :: "world \<Rightarrow> string \<Rightarrow> string \<Rightarrow> string list" where
  "brand_label w name url =
     (if effective_domain w name url \<noteq> []
         \<and> fetch_brandfetch_data_enhanced w (effective_domain w name url) \<noteq> []
      then [''Brandfetch''] else [])"

definition content_label :: "world \<Rightarrow> string \<Rightarrow> string \<Rightarrow> string list" where
  "content_label w name url =
     (if effective_content w name url \<noteq> [] then [''Website Content''] else [])"

definition summary_label :: "world \<Rightarrow> string \<Rightarrow> string \<Rightarrow> string list" where
  "summary_label w name url =
     (if fetch_duckduckgo_summary w (effective_name w name url) \<noteq> [] then [''DuckDuckGo'']
      else if effective_content w name url \<noteq> [] then [''Website Summary''] else [])"

definition news_label :: "world \<Rightarrow> string \<Rightarrow> string \<Rightarrow> string list" where
  "news_label w name url =
     (if fetch_news_articles_enhanced w (effective_name w name url)
           (effective_domain w name url) 5 \<noteq> []
      then [''NewsData''] else [])"

definition industry_label :: "world \<Rightarrow> string \<Rightarrow> string \<Rightarrow> string list" where
  "industry_label w name url =
     (if effective_summary w name url \<noteq> [] then [''AI Industry Classification''] else [])"

section \<open>The leads the insight synthesizer is written for\<close>

text \<open>
  A lead as the aggregator builds it and as the router's model declares it apart from
  the news items: the news are missing, null or a list of dictionaries, and the sources
  are missing, null or a list of texts.
\<close>

fun is_dict :: "json \<Rightarrow> bool" where
  "is_dict (JDict kvs) = True"
| "is_dict x = False"

fun is_text :: "json \<Rightarrow> bool" where
  "is_text (JStr s) = True"
| "is_text x = False"

definition well_formed_lead :: "(string \<times> json) list \<Rightarrow> bool" where
  "well_formed_lead lead \<longleftrightarrow>
     (case get_or lead ''news'' (JList []) of
        JNull \<Rightarrow> True | JList items \<Rightarrow> list_all is_dict items | _ \<Rightarrow> False)
     \<and> (case get_or lead ''sources_used'' (JList []) of
          JNull \<Rightarrow> True | JList xs \<Rightarrow> list_all is_text xs | _ \<Rightarrow> False)"

section \<open>The specification's reading of the page summary\<close>

text \<open>
  To compare the code with: each extracted field that is not empty, under its label, in
  the order title, description, headings, content; the parts joined by \<^verbatim>\<open> | \<close>; the
  fixed sentence when there is no part. The headings field is the text of the first two
  level-1 headings, joined by a comma and a blank; the content is the main content, or
  the first paragraph when there is none. A text is collapsed when it consists of words
  without white space, with one blank between two words.
\<close>

definition labelled :: "string \<Rightarrow> string \<Rightarrow> string list" where
  "labelled label text = (if text = [] then [] else [label @ text])"

definition chosen_content :: "soup \<Rightarrow> string" where
  "chosen_content page =
     (if extract_main_content page \<noteq> [] then extract_main_content page
      else extract_first_paragraph page)"





section \<open>The specification's reading of the merged news\<close>

text \<open>
  To compare the code with: the title an article is compared by, lower-cased and trimmed;
  and of a list of articles, those whose compared title is not blank and is not the
  compared title of an article before them in the list, in the order of the list. Each
  such title is there once, with the first article that carries it.
\<close>

definition compared_title :: "pydict \<Rightarrow> string" where
  "compared_title article = strip (lower (dict_get article ''title'' []))"

definition spec_first_seen :: "pydict list \<Rightarrow> pydict list" where
  "spec_first_seen as =
     map (\<lambda>i. as ! i)
       (filter (\<lambda>i. compared_title (as ! i) \<noteq> []
                     \<and> compared_title (as ! i) \<notin> compared_title ` set (take i as))
          [0..<length as])"

section \<open>Sample worlds and inputs\<close>

text \<open>
  A world in which no key is set and no provider answers, the same world with a
  language model that answers every request with one JSON value, a reply of the expected
  shape, and a research record without any research in it.
\<close>

definition offline :: world where
  "offline = \<lparr>ipaddress_ip6 = reject_ip6, BRANDFETCH_API_KEY = None, NEWSDATA_API_KEY = None,
     SERPER_API_KEY = None, GROQ_API_KEY = None, get_website = (\<lambda>u. NoReply),
     get_duckduckgo = (\<lambda>q r. NoReply), get_brandfetch = (\<lambda>d. NoReply),
     get_newsdata = (\<lambda>q. NoReply), post_serper = (\<lambda>q n. NoReply),
     post_groq = (\<lambda>p. NoRawReply)\<rparr>"

definition chat_reply :: "string \<Rightarrow> json" where
  "chat_reply text = JDict [(''choices'', JList [JDict [(''message'', JDict [(''content'', JStr text)])]])]"

definition chatty :: "json \<Rightarrow> world" where
  "chatty j = offline\<lparr>GROQ_API_KEY := Some ''key'', post_groq := (\<lambda>p. Json j)\<rparr>"

definition acme :: research where
  "acme = \<lparr>company_name = ''Acme'', website = [], canonical_name = ''Acme'', summary = [],
     news = [], logo = [], industry = [], sources_used = []\<rparr>"

text \<open>
  The body of a request to the insight router that names a company and gives its news as
  a list of headlines, as the router's model makes a dictionary of it.
\<close>

definition posted_lead :: "(string \<times> json) list" where
  "posted_lead =
     [(''company_name'', JStr ''Acme''), (''canonical_name'', JNull), (''summary'', JNull),
      (''news'', JList [JStr ''Acme launches rocket'']), (''industry'', JNull),
      (''website'', JNull), (''sources_used'', JNull),
      (''include_strategic_research'', JBool False)]"

text \<open>
  A run of \<open>n\<close> one-letter words, and a reply of 301 words that stops in the middle of a
  sentence.
\<close>

definition many_words :: "nat \<Rightarrow> string" where
  "many_words n = concat (replicate n ''w '')"

definition cut_reply :: string where
  "cut_reply = many_words 300 @ ''and''"

text \<open>
  A world in which the instant-answer provider gives one reply to every request; a reply
  with empty primary fields and one related topic about a company; and the same reply
  with an abstract of 26 words that names no business indicator.
\<close>

definition answering :: "ddg_body \<Rightarrow> world" where
  "answering body = offline\<lparr>get_duckduckgo := (\<lambda>q no_redirect. Reply body)\<rparr>"

definition topics_only :: ddg_body where
  "topics_only =
     \<lparr>AbstractText = [], Heading = [], AbstractURL = [],
      RelatedTopics = [Topic \<lparr>Text = ''Acme Corporation is a software company.'', Result = [],
                              FirstURL = ''https://duckduckgo.com/Acme_Corporation''\<rparr>]\<rparr>"

definition conceptual :: ddg_body where
  "conceptual = topics_only\<lparr>AbstractText :=
     ''An acme is the highest point or peak of something, the stage at which a thing is most fully developed, often used in a figurative sense.''\<rparr>"

text \<open>
  A world in which every website is fetched as one page, a page of a rocket company, a
  page on which nothing is found, and a page on which only a level-1 heading without
  text is found.
\<close>

definition serving :: "soup \<Rightarrow> world" where
  "serving page = offline\<lparr>get_website := (\<lambda>u. Reply page)\<rparr>"

definition acme_page :: soup where
  "acme_page = \<lparr>find_title = Some '' Acme Rockets '',
     find_meta_description = Some ''We build rockets.'', find_all_h1 = [''Welcome''],
     find_p = Some ''We build rockets  for everyone.'', select_one = (\<lambda>selector. None),
     find_body = Some (''Welcome'' @ nl @ ''  We build rockets  for everyone.'' @ nl)\<rparr>"

definition blank_page :: soup where
  "blank_page = \<lparr>find_title = None, find_meta_description = None, find_all_h1 = [],
     find_p = None, select_one = (\<lambda>selector. None), find_body = Some []\<rparr>"


text \<open>
  A news item with a title and a link; the items the news provider has for the query
  \<^verbatim>\<open>Acme\<close> and for any other query; and the world in which it answers with them.
\<close>

definition headline :: "string \<Rightarrow> string \<Rightarrow> news_item" where
  "headline t l = \<lparr>item_title = t, item_headline = [], item_link = l, item_url = []\<rparr>"

definition name_news :: "news_item list" where
  "name_news = [headline ''Acme launches rocket'' ''https://news.example/1'',
                headline ''Rocket fuel prices'' ''https://news.example/2'',
                headline ''Acme hires'' ''https://news.example/3'']"

definition domain_news :: "news_item list" where
  "domain_news = [headline ''ACME LAUNCHES ROCKET '' ''https://other.example/a'',
                  headline ''Acme.io raises funds'' ''https://other.example/b'']"

definition newsroom :: world where
  "newsroom = offline\<lparr>NEWSDATA_API_KEY := Some ''key'',
     get_newsdata := (\<lambda>q. Reply \<lparr>news_results = (if q = ''Acme'' then name_news else domain_news),
                                    news_articles = []\<rparr>)\<rparr>"

section \<open>Properties of the URL utilities\<close>

lemma urlparse_empty:
  "urlparse ip6 [] =
     Inr \<lparr>scheme = [], netloc = [], path = [], params = [], query = [], fragment = []\<rparr>"
  by (simp add: urlparse_def uses_params_def)

lemma urlparse_https_example:
  "urlparse reject_ip6 ''https://www.example.com/path'' =
     Inr \<lparr>scheme = ''https'', netloc = ''www.example.com'', path = ''/path'',
          params = [], query = [], fragment = []\<rparr>"
  by code_simp

lemma urlparse_ftp_example:
  "urlparse reject_ip6 ''ftp://example.com'' =
     Inr \<lparr>scheme = ''ftp'', netloc = ''example.com'', path = [],
          params = [], query = [], fragment = []\<rparr>"
  by code_simp

lemma lower_char_not_upper: "\<not> isupper (lower_char c)"
proof (cases "isupper c")
  case True
  then have "code c + 32 < 256" "90 < code c + 32"
    by (simp_all add: isupper_def)
  then show ?thesis
    using True by (simp add: lower_char_def isupper_def code_def)
next
  case False
  then show ?thesis by (simp add: lower_char_def)
qed

text \<open>
  C9, as the code has it. \<^verbatim>\<open>api_helpers.is_valid_url\<close> is true exactly when the string
  parses to a URL whose scheme is http or https and whose network location is not empty.
  \<^verbatim>\<open>validation.is_valid_url\<close> is true exactly when the string parses to a URL whose scheme
  and network location are both not empty, whatever the scheme. Either one is false when
  the parser raises, when there is no scheme and when there is no network location.
\<close>

theorem is_valid_url_iff:
  "(is_valid_url ip6 url \<longleftrightarrow>
      (\<exists>p. urlparse ip6 url = Inr p \<and> scheme p \<in> {''http'', ''https''} \<and> netloc p \<noteq> []))
   \<and> (validation_is_valid_url ip6 url \<longleftrightarrow>
      (\<exists>p. urlparse ip6 url = Inr p \<and> scheme p \<noteq> [] \<and> netloc p \<noteq> []))"
  by (auto simp: is_valid_url_def validation_is_valid_url_def urlparse_empty
           split: sum.splits)

theorem is_valid_url_iff_witness:
  "is_valid_url reject_ip6 ''https://www.example.com/path''
   \<and> validation_is_valid_url reject_ip6 ''https://www.example.com/path''"
  using is_valid_url_iff [of reject_ip6 "''https://www.example.com/path''"]
  by (simp add: urlparse_https_example)

text \<open>
  C9 as the specification states it fails for \<^verbatim>\<open>validation.is_valid_url\<close>: an ftp URL is
  accepted although its scheme is neither http nor https.
\<close>

theorem validation_is_valid_url_accepts_ftp:
  "validation_is_valid_url reject_ip6 ''ftp://example.com'' = True
   \<and> \<not> is_valid_url reject_ip6 ''ftp://example.com''
   \<and> urlparse reject_ip6 ''ftp://example.com'' =
       Inr \<lparr>scheme = ''ftp'', netloc = ''example.com'', path = [],
            params = [], query = [], fragment = []\<rparr>"
  by (simp add: validation_is_valid_url_def is_valid_url_def urlparse_ftp_example)

text \<open>
  C7. \<^verbatim>\<open>api_helpers.extract_domain\<close> returns the network location of a valid URL as the
  parser gives it (nothing is put in lower case, a leading www. stays); for an input that
  is not a valid URL it returns the input without surrounding white space when the input
  has a \<^verbatim>\<open>.\<close> and no \<^verbatim>\<open>/\<close>, and the empty string otherwise.
  \<^verbatim>\<open>parser_utils.extract_domain\<close> differs: its result has no upper-case letter, and on
  the same URL it has dropped the www. prefix.
\<close>

theorem extract_domain_cases:
  "(is_valid_url ip6 url \<longrightarrow>
      (\<exists>p. urlparse ip6 url = Inr p \<and> extract_domain ip6 url = netloc p))
   \<and> (\<not> is_valid_url ip6 url \<and> contains url ''.'' \<and> \<not> contains url ''/'' \<longrightarrow>
      extract_domain ip6 url = strip url)
   \<and> (\<not> is_valid_url ip6 url \<and> \<not> (contains url ''.'' \<and> \<not> contains url ''/'') \<longrightarrow>
      extract_domain ip6 url = [])
   \<and> extract_domain reject_ip6 ''https://www.example.com/path'' = ''www.example.com''
   \<and> extract_domain reject_ip6 ''https://www.Example.com/path'' = ''www.Example.com''
   \<and> parser_extract_domain reject_ip6 ''https://www.Example.com/path'' = Inr ''example.com''
   \<and> (\<forall>d. parser_extract_domain ip6 url = Inr d \<longrightarrow> list_all (\<lambda>c. \<not> isupper c) d)"
proof -
  have valid: "is_valid_url ip6 url \<longrightarrow>
      (\<exists>p. urlparse ip6 url = Inr p \<and> extract_domain ip6 url = netloc p)"
    by (auto simp: extract_domain_def is_valid_url_def split: sum.splits)
  have bare: "\<not> is_valid_url ip6 url \<and> contains url ''.'' \<and> \<not> contains url ''/'' \<longrightarrow>
      extract_domain ip6 url = strip url"
    by (cases url) (simp_all add: extract_domain_def)
  have other: "\<not> is_valid_url ip6 url \<and> \<not> (contains url ''.'' \<and> \<not> contains url ''/'') \<longrightarrow>
      extract_domain ip6 url = []"
    by (auto simp: extract_domain_def)
  have ex1: "extract_domain reject_ip6 ''https://www.example.com/path'' = ''www.example.com''"
    by code_simp
  have ex2: "extract_domain reject_ip6 ''https://www.Example.com/path'' = ''www.Example.com''"
    by code_simp
  have ex3: "parser_extract_domain reject_ip6 ''https://www.Example.com/path'' = Inr ''example.com''"
    by code_simp
  have low: "\<forall>d. parser_extract_domain ip6 url = Inr d \<longrightarrow> list_all (\<lambda>c. \<not> isupper c) d"
    by (auto simp: parser_extract_domain_def lower_def list_all_iff lower_char_not_upper
             Let_def split: sum.splits if_splits)
  from valid bare other ex1 ex2 ex3 low show ?thesis by blast
qed

theorem extract_domain_cases_witness:
  "is_valid_url reject_ip6 ''https://www.example.com/path''
   \<and> extract_domain reject_ip6 ''https://www.example.com/path'' = ''www.example.com''
   \<and> \<not> is_valid_url reject_ip6 '' example.com ''
   \<and> extract_domain reject_ip6 '' example.com '' = ''example.com''
   \<and> \<not> is_valid_url reject_ip6 ''example.com/about''
   \<and> extract_domain reject_ip6 ''example.com/about'' = []
   \<and> parser_extract_domain reject_ip6 ''HTTPS://Www.Example.com'' = Inr ''www.example.com''
   \<and> list_all (\<lambda>c. \<not> isupper c) ''www.example.com''"
proof -
  have v1: "is_valid_url reject_ip6 ''https://www.example.com/path''"
    by code_simp
  have v2: "\<not> is_valid_url reject_ip6 '' example.com ''"
    by code_simp
  have c2: "contains '' example.com '' ''.''" "\<not> contains '' example.com '' ''/''"
    by code_simp+
  have s2: "strip '' example.com '' = ''example.com''"
    by code_simp
  have v3: "\<not> is_valid_url reject_ip6 ''example.com/about''"
    by code_simp
  have c3: "contains ''example.com/about'' ''/''"
    by code_simp
  have p4: "parser_extract_domain reject_ip6 ''HTTPS://Www.Example.com'' = Inr ''www.example.com''"
    by code_simp
  note t1 = extract_domain_cases [of reject_ip6 "''https://www.example.com/path''"]
  note t2 = extract_domain_cases [of reject_ip6 "'' example.com ''"]
  note t3 = extract_domain_cases [of reject_ip6 "''example.com/about''"]
  note t4 = extract_domain_cases [of reject_ip6 "''HTTPS://Www.Example.com''"]
  have a: "extract_domain reject_ip6 ''https://www.example.com/path'' = ''www.example.com''"
    using t1 by blast
  have b: "extract_domain reject_ip6 '' example.com '' = ''example.com''"
    using t2 v2 c2 s2 by metis
  have c: "extract_domain reject_ip6 ''example.com/about'' = []"
    using t3 v3 c3 by blast
  have d: "list_all (\<lambda>c. \<not> isupper c) ''www.example.com''"
    using t4 p4 by blast
  show ?thesis using v1 a v2 b v3 c p4 d by blast
qed

section \<open>The company-name normaliser\<close>

lemma isspace_lower_char: "isspace (lower_char c) = isspace c"
  by (auto simp: lower_char_def isspace_def isupper_def code_def)

lemma token_no_space: "x \<in> set suffix_tokens \<Longrightarrow> c \<in> set x \<Longrightarrow> \<not> isspace c"
  by (auto simp: suffix_tokens_def isspace_def code_def)

lemma lower_token_no_space:
  assumes "lower x \<in> set suffix_tokens" "c \<in> set x"
  shows "\<not> isspace c"
proof -
  have "lower_char c \<in> set (lower x)" using assms(2) by (simp add: lower_def)
  then have "\<not> isspace (lower_char c)" using assms(1) token_no_space by blast
  then show ?thesis by (simp add: isspace_lower_char)
qed

lemma re_sub_no_space: "\<forall>c\<in>set w. \<not> isspace c \<Longrightarrow> re_sub_suffix w = w"
proof (induction w)
  case Nil then show ?case by simp
next
  case (Cons a w)
  then have "\<not> suffix_match (a # w)" by (simp add: suffix_match_def)
  with Cons show ?case by simp
qed

lemma re_sub_append:
  "(\<And>i. i < length xs \<Longrightarrow> \<not> suffix_match (drop i xs @ ys)) \<Longrightarrow>
   re_sub_suffix (xs @ ys) = xs @ re_sub_suffix ys"
proof (induction xs)
  case Nil then show ?case by simp
next
  case (Cons a xs)
  have "\<not> suffix_match ((a # xs) @ ys)" using Cons.prems [of 0] by simp
  moreover have "re_sub_suffix (xs @ ys) = xs @ re_sub_suffix ys"
  proof (rule Cons.IH)
    fix i assume "i < length xs"
    then show "\<not> suffix_match (drop i xs @ ys)" using Cons.prems [of "Suc i"] by simp
  qed
  ultimately show ?case by simp
qed

lemma no_match_before_gap:
  assumes "x \<noteq> []" "\<not> isspace (last x)" "ws \<noteq> []" "\<forall>c\<in>set ws. isspace c" "w \<noteq> []"
  shows "\<not> suffix_match (x @ ws @ w)"
proof
  assume m: "suffix_match (x @ ws @ w)"
  define x' where "x' = dropWhile isspace x"
  have "last x \<in> set x" using assms(1) by simp
  then have d: "dropWhile isspace (x @ ws @ w) = x' @ ws @ w"
    unfolding x'_def using assms(2) by (simp add: dropWhile_append1)
  have sp: "hd ws \<in> set ws" "isspace (hd ws)" using assms(3,4) by simp_all
  from m d consider
    (a) "lower (x' @ ws @ w) \<in> set suffix_tokens"
    | (b) "lower (butlast (x' @ ws @ w)) \<in> set suffix_tokens"
    by (auto simp: suffix_match_def Let_def)
  then show False
  proof cases
    case a
    have "hd ws \<in> set (x' @ ws @ w)" using sp(1) by simp
    with a sp(2) lower_token_no_space show False by blast
  next
    case b
    have "butlast (x' @ ws @ w) = x' @ ws @ butlast w"
      using assms(5) by (simp add: butlast_append)
    then have "hd ws \<in> set (butlast (x' @ ws @ w))" using sp(1) by simp
    with b sp(2) lower_token_no_space show False by blast
  qed
qed

lemma match_at_gap:
  assumes "ws \<noteq> []" "\<forall>c\<in>set ws. isspace c" "w \<noteq> []" "\<forall>c\<in>set w. \<not> isspace c"
  shows "suffix_match (ws @ w) \<longleftrightarrow> lower w \<in> set suffix_tokens"
proof -
  have hw: "\<not> isspace (hd w)" using assms(3,4) by simp
  have t: "takeWhile isspace (ws @ w) = ws"
    using assms(2,3) hw by (cases w) (simp_all add: takeWhile_append2)
  have d: "dropWhile isspace (ws @ w) = w"
    using assms(2,3) hw by (cases w) (simp_all add: dropWhile_append2)
  have "\<not> isspace (last w)" using assms(3,4) by simp
  then have "code (last w) \<noteq> 10" by (auto simp: isspace_def)
  then show ?thesis using assms(1) t d by (simp add: suffix_match_def Let_def)
qed

lemma drop_while_gap:
  assumes "ws \<noteq> []" "\<forall>c\<in>set ws. isspace c" "w \<noteq> []" "\<forall>c\<in>set w. \<not> isspace c"
  shows "dropWhile isspace (ws @ w) = w"
  using assms by (cases w) (simp_all add: dropWhile_append2)

lemma re_sub_gap:
  assumes "ws \<noteq> []" "\<forall>c\<in>set ws. isspace c" "w \<noteq> []" "\<forall>c\<in>set w. \<not> isspace c"
  shows "re_sub_suffix (ws @ w) = (if lower w \<in> set suffix_tokens then [] else ws @ w)"
proof (cases "lower w \<in> set suffix_tokens")
  case True
  then have "suffix_match (ws @ w)" using match_at_gap [OF assms] by simp
  moreover obtain a as where "ws @ w = a # as" using assms(1) by (cases ws) auto
  ultimately show ?thesis using True drop_while_gap [OF assms] by simp
next
  case False
  have "re_sub_suffix (ws @ w) = ws @ re_sub_suffix w"
  proof (rule re_sub_append)
    fix i assume i: "i < length ws"
    have "drop i ws \<noteq> []" "\<forall>c\<in>set (drop i ws). isspace c"
      using i assms(2) by (auto dest: in_set_dropD)
    then show "\<not> suffix_match (drop i ws @ w)"
      using match_at_gap [of "drop i ws" w] assms(3,4) False by simp
  qed
  then show ?thesis using False re_sub_no_space [OF assms(4)] by simp
qed

lemma re_sub_spec:
  assumes "t = [] \<or> (\<not> isspace (hd t) \<and> \<not> isspace (last t))"
  shows "re_sub_suffix t = spec_strip_suffix t"
proof -
  define P where "P = (\<lambda>c. \<not> isspace c)"
  define w where "w = rev (takeWhile P (rev t))"
  define u where "u = dropWhile P (rev t)"
  define ws where "ws = rev (takeWhile isspace u)"
  define rest where "rest = rev (dropWhile isspace u)"
  have t: "t = rest @ ws @ w"
  proof -
    have a: "rev t = takeWhile P (rev t) @ u"
      by (simp add: u_def)
    have b: "rev u = rev (dropWhile isspace u) @ rev (takeWhile isspace u)"
      by (metis rev_append takeWhile_dropWhile_id)
    have "t = rev (takeWhile P (rev t) @ u)"
      using a by (metis rev_rev_ident)
    then have "t = rev u @ w"
      by (simp add: w_def)
    then show ?thesis
      using b by (simp add: rest_def ws_def)
  qed
  have w_free: "\<forall>c\<in>set w. \<not> isspace c"
    unfolding w_def P_def by (auto dest: set_takeWhileD)
  have ws_sp: "\<forall>c\<in>set ws. isspace c"
    unfolding ws_def by (auto dest: set_takeWhileD)
  have rest_last: "rest \<noteq> [] \<Longrightarrow> \<not> isspace (last rest)"
    unfolding rest_def using hd_dropWhile [of isspace u] by (simp add: last_rev)
  have spec: "spec_strip_suffix t = (if lower w \<in> set suffix_tokens \<and> rest \<noteq> [] then rest else t)"
    unfolding spec_strip_suffix_def w_def rest_def u_def P_def by (simp add: Let_def)
  show ?thesis
  proof (cases "ws = []")
    case True
    have "u = []"
    proof (rule ccontr)
      assume "u \<noteq> []"
      then have "\<not> P (hd u)" unfolding u_def using hd_dropWhile [of P "rev t"] by simp
      then have "isspace (hd u)" by (simp add: P_def)
      then have "takeWhile isspace u \<noteq> []" using \<open>u \<noteq> []\<close> by (cases u) simp_all
      then show False using True by (simp add: ws_def)
    qed
    then have "rest = []" by (simp add: rest_def)
    then have "t = w" using t True by simp
    then show ?thesis using spec \<open>rest = []\<close> re_sub_no_space w_free by simp
  next
    case False
    have tne: "t \<noteq> []" using t False by simp
    have wne: "w \<noteq> []"
    proof
      assume "w = []"
      then have "last t = last ws" using t False by simp
      then have "isspace (last t)" using ws_sp False by simp
      then show False using assms tne by simp
    qed
    have rne: "rest \<noteq> []"
    proof
      assume "rest = []"
      then have "hd t = hd ws" using t False by simp
      then have "isspace (hd t)" using ws_sp False by simp
      then show False using assms tne by simp
    qed
    have "re_sub_suffix (rest @ (ws @ w)) = rest @ re_sub_suffix (ws @ w)"
    proof (rule re_sub_append)
      fix i assume i: "i < length rest"
      then have "drop i rest \<noteq> []" "last (drop i rest) = last rest" by simp_all
      then show "\<not> suffix_match (drop i rest @ ws @ w)"
        using no_match_before_gap [of "drop i rest" ws w] rest_last rne False ws_sp wne by simp
    qed
    then have "re_sub_suffix t = rest @ (if lower w \<in> set suffix_tokens then [] else ws @ w)"
      using t re_sub_gap [OF False ws_sp wne w_free] by simp
    then show ?thesis using spec rne t by simp
  qed
qed

lemma strip_shape: "strip s = [] \<or> (\<not> isspace (hd (strip s)) \<and> \<not> isspace (last (strip s)))"
proof (cases "strip s = []")
  case True then show ?thesis by simp
next
  case False
  define l where "l = lstrip s"
  have s: "strip s = rev (dropWhile isspace (rev l))" by (simp add: strip_def rstrip_def l_def)
  have lne: "l \<noteq> []" using False s by auto
  have hl: "\<not> isspace (hd l)" unfolding l_def lstrip_def using lne hd_dropWhile [of isspace s]
    by (simp add: l_def lstrip_def)
  have dne: "dropWhile isspace (rev l) \<noteq> []" using False s by simp
  have "last (strip s) = hd (dropWhile isspace (rev l))" using s dne by (simp add: last_rev)
  then have la: "\<not> isspace (last (strip s))" using hd_dropWhile [OF dne] by simp
  have "hd (strip s) = last (dropWhile isspace (rev l))" using s dne by (simp add: hd_rev)
  also have "\<dots> = last (rev l)" using dne by (metis last_appendR takeWhile_dropWhile_id)
  also have "\<dots> = hd l" using lne by (simp add: last_rev)
  finally show ?thesis using hl la by simp
qed

lemma normalize_refines: "normalize_company_name s = spec_normalize_company_name s"
proof (cases "s = []")
  case True
  then show ?thesis
    by (simp add: normalize_company_name_def spec_normalize_company_name_def
        spec_strip_suffix_def strip_def lstrip_def rstrip_def py_title_def)
next
  case False
  then show ?thesis
    using re_sub_spec [OF strip_shape [of s]]
    by (simp add: normalize_company_name_def spec_normalize_company_name_def)
qed

text \<open>
  C8. \<^verbatim>\<open>normalize_company_name\<close> computes what the specification describes, for every
  string: the name trimmed, without one trailing legal-entity token, in title case. In
  particular \<^verbatim>\<open>"  Acme Corp. "\<close> becomes \<^verbatim>\<open>"Acme"\<close> and \<^verbatim>\<open>"OpenAI"\<close> becomes \<^verbatim>\<open>"Openai"\<close>;
  of two trailing tokens only the last one goes.
\<close>

theorem normalize_company_name_spec:
  "normalize_company_name s = spec_normalize_company_name s
   \<and> normalize_company_name ''  Acme Corp. '' = ''Acme''
   \<and> normalize_company_name ''OpenAI'' = ''Openai''
   \<and> normalize_company_name ''acme widgets LTD'' = ''Acme Widgets''
   \<and> normalize_company_name ''Acme Inc Ltd.'' = ''Acme Inc''"
proof -
  have e1: "normalize_company_name ''  Acme Corp. '' = ''Acme''"
    by code_simp
  have e2: "normalize_company_name ''OpenAI'' = ''Openai''"
    by code_simp
  have e3: "normalize_company_name ''acme widgets LTD'' = ''Acme Widgets''"
    by code_simp
  have e4: "normalize_company_name ''Acme Inc Ltd.'' = ''Acme Inc''"
    by code_simp
  show ?thesis
    using normalize_refines [of s] e1 e2 e3 e4 by simp
qed

section \<open>The insight synthesizer\<close>

lemma getitem_key_Inr: "getitem_key x k = Inr v \<longleftrightarrow> (\<exists>d. x = JDict d \<and> map_of d k = Some v)"
  by (cases x) (auto split: option.splits)

lemma getitem_0_Inr: "getitem_0 x = Inr v \<longleftrightarrow>
   (\<exists>xs. x = JList (v # xs)) \<or> (\<exists>c cs. x = JStr (c # cs) \<and> v = JStr [c])"
  by (cases x rule: getitem_0.cases) auto

lemma str_strip_Inr: "str_strip x = Inr t \<longleftrightarrow> (\<exists>raw. x = JStr raw \<and> t = strip raw)"
  by (cases x) auto

lemma message_content_Inr:
  "message_content resp = Inr t \<longleftrightarrow> (\<exists>raw. reply_content resp = Some raw \<and> t = strip raw)"
  by (cases resp)
    (auto simp: reply_content_def message_content_def and_then_def getitem_key_Inr
       getitem_0_Inr str_strip_Inr split: json.splits option.splits list.splits sum.splits)

lemma message_content_None:
  "reply_content resp = None \<Longrightarrow> \<exists>e. message_content resp = Inl e"
  using message_content_Inr [of resp] by (cases "message_content resp") auto

lemma endswith_single: "endswith s [c] \<longleftrightarrow> s \<noteq> [] \<and> last s = c"
proof (cases "rev s")
  case Nil then show ?thesis by (simp add: endswith_def)
next
  case (Cons a as)
  then have "s = rev as @ [a]" by (metis rev_rev_ident rev.simps(2))
  then show ?thesis using Cons by (auto simp: endswith_def)
qed

lemma looks_truncated_iff:
  "looks_truncated t \<longleftrightarrow>
     t \<noteq> [] \<and> last t \<notin> {CHR ''.'', CHR ''!'', CHR ''?''} \<and> 300 < length (split_ws t)"
  by (auto simp: looks_truncated_def endswith_single)

lemma split_ws_space: "isspace c \<Longrightarrow> split_ws (c # s) = split_ws s"
  by (simp add: split_ws.simps [of "c # s"] split_ws.simps [of s])

lemma split_ws_word:
  "\<not> isspace c \<Longrightarrow>
   split_ws (c # s) =
     (c # takeWhile (\<lambda>c. \<not> isspace c) s) # split_ws (dropWhile (\<lambda>c. \<not> isspace c) s)"
  by (simp add: split_ws.simps [of "c # s"])

lemma split_ws_Nil: "split_ws [] = []"
  by (simp add: split_ws.simps [of "[]"])

lemma isspace_chars: "isspace CHR '' ''" "\<not> isspace CHR ''w''" "isspace CHR 0x0A"
  "\<not> isspace CHR ''.''" "\<not> isspace CHR ''e''"
  by (simp_all add: isspace_def code_def)

lemma split_ws_many_words:
  "split_ws (many_words n @ rest) = replicate n ''w'' @ split_ws rest"
  by (induction n) (simp_all add: many_words_def split_ws_word split_ws_space isspace_chars)

lemma and_then_Inr: "and_then (Inr v) f = f v"
  by (simp add: and_then_def)

lemma and_then_Inl: "and_then (Inl e) f = Inl e"
  by (simp add: and_then_def)

lemma news_line_dict: "is_dict n \<Longrightarrow> \<exists>line. news_line n = Inr line"
  by (cases n) (simp_all add: news_line_def and_then_def)

lemma news_line_other: "\<not> is_dict n \<Longrightarrow> news_line n = Inl AttributeError"
  by (cases n) (simp_all add: news_line_def and_then_def)

lemma news_lines_dicts: "list_all is_dict ns \<Longrightarrow> \<exists>lines. news_lines ns = Inr lines"
proof (induction ns)
  case Nil
  then show ?case by simp
next
  case (Cons n ns)
  then obtain line lines where "news_line n = Inr line" "news_lines ns = Inr lines"
    using news_line_dict [of n] by auto
  then show ?case by (simp add: and_then_Inr)
qed

lemma news_lines_other: "\<not> list_all is_dict ns \<Longrightarrow> news_lines ns = Inl AttributeError"
proof (induction ns)
  case Nil
  then show ?case by simp
next
  case (Cons n ns)
  show ?case
  proof (cases "is_dict n")
    case True
    then obtain line where l: "news_line n = Inr line"
      using news_line_dict by blast
    have "news_lines ns = Inl AttributeError"
      using Cons True by simp
    then show ?thesis using l by (simp add: and_then_Inr and_then_Inl)
  next
    case False
    then show ?thesis by (simp add: news_line_other and_then_Inl)
  qed
qed

lemma strings_texts: "list_all is_text xs \<Longrightarrow> \<exists>ss. strings xs = Inr ss"
proof (induction xs)
  case Nil
  then show ?case by simp
next
  case (Cons x xs)
  then obtain s ss where "x = JStr s" "strings xs = Inr ss"
    by (cases x) auto
  then show ?case by (simp add: and_then_Inr)
qed

lemma news_part_well_formed:
  assumes "well_formed_lead lead"
  shows "\<exists>part.
     (if truthy (get_or lead ''news'' (JList []))
      then and_then (slice_3 (get_or lead ''news'' (JList []))) (\<lambda>items.
           and_then (news_lines items) (\<lambda>lines.
           Inr [''## Recent News & Mentions'' @ nl @ join nl lines]))
      else Inr []) = Inr part"
proof (cases "get_or lead ''news'' (JList [])")
  case (JList items)
  then have "list_all is_dict items"
    using assms by (simp add: well_formed_lead_def)
  then have "list_all is_dict (take 3 items)"
    using set_take_subset [of 3 items] by (auto simp: list_all_iff)
  then obtain lines where "news_lines (take 3 items) = Inr lines"
    using news_lines_dicts by blast
  then show ?thesis using JList by (simp add: and_then_Inr)
qed (use assms in \<open>simp_all add: well_formed_lead_def\<close>)

lemma sources_part_well_formed:
  assumes "well_formed_lead lead"
  shows "\<exists>part.
     (if truthy (get_or lead ''sources_used'' (JList []))
      then and_then (join_items (get_or lead ''sources_used'' (JList []))) (\<lambda>items.
           Inr [''## Research Sources'' @ nl @ join '', '' items])
      else Inr []) = Inr part"
proof (cases "get_or lead ''sources_used'' (JList [])")
  case (JList xs)
  then have "list_all is_text xs"
    using assms by (simp add: well_formed_lead_def)
  then obtain ss where "strings xs = Inr ss"
    using strings_texts by blast
  then show ?thesis using JList by (simp add: and_then_Inr)
qed (use assms in \<open>simp_all add: well_formed_lead_def\<close>)

lemma insight_context_well_formed:
  assumes "well_formed_lead lead"
  shows "\<exists>context. insight_context w lead flag = Inr context"
proof -
  obtain news_part where n:
    "(if truthy (get_or lead ''news'' (JList []))
      then and_then (slice_3 (get_or lead ''news'' (JList []))) (\<lambda>items.
           and_then (news_lines items) (\<lambda>lines.
           Inr [''## Recent News & Mentions'' @ nl @ join nl lines]))
      else Inr []) = Inr news_part"
    using news_part_well_formed [OF assms] by blast
  obtain sources_part where s:
    "(if truthy (get_or lead ''sources_used'' (JList []))
      then and_then (join_items (get_or lead ''sources_used'' (JList []))) (\<lambda>items.
           Inr [''## Research Sources'' @ nl @ join '', '' items])
      else Inr []) = Inr sources_part"
    using sources_part_well_formed [OF assms] by blast
  show ?thesis
    unfolding insight_context_def Let_def n s and_then_Inr by blast
qed

lemma insight_context_raises:
  assumes "get_or lead ''news'' (JList []) = JList items"
    and "\<not> list_all is_dict (take 3 items)"
  shows "insight_context w lead flag = Inl AttributeError"
proof -
  have "items \<noteq> []" using assms(2) by auto
  then have t: "truthy (get_or lead ''news'' (JList []))"
    using assms(1) by simp
  have "news_lines (take 3 items) = Inl AttributeError"
    using assms(2) by (rule news_lines_other)
  then have "(if truthy (get_or lead ''news'' (JList []))
      then and_then (slice_3 (get_or lead ''news'' (JList []))) (\<lambda>items.
           and_then (news_lines items) (\<lambda>lines.
           Inr [''## Recent News & Mentions'' @ nl @ join nl lines]))
      else Inr []) = Inl AttributeError"
    using t assms(1) by (simp add: and_then_Inr and_then_Inl)
  then show ?thesis
    unfolding insight_context_def Let_def by (simp only: and_then_Inl)
qed

lemma well_formed_lead_of: "well_formed_lead (lead_of r)"
  by (simp add: well_formed_lead_def lead_of_def get_or_def list_all_iff article_value_def)

lemma generate_ai_insight_cases:
  assumes "insight_payload w lead flag = Inr payload"
  shows "generate_ai_insight w lead flag =
     Inr (case call_groq_chat w payload of
            None \<Rightarrow> analysis_failed
          | Some resp \<Rightarrow>
              if \<not> truthy resp then analysis_failed
              else case reply_content resp of
                     None \<Rightarrow> analysis_error
                   | Some raw \<Rightarrow>
                       if strip raw \<noteq> [] \<and> last (strip raw) \<notin> {CHR ''.'', CHR ''!'', CHR ''?''}
                          \<and> 300 < length (split_ws (strip raw))
                       then analysis_truncated else strip raw)"
proof (cases "call_groq_chat w payload")
  case None
  then show ?thesis by (simp add: generate_ai_insight_def assms and_then_Inr)
next
  case (Some resp)
  show ?thesis
  proof (cases "reply_content resp")
    case None
    then obtain e where "message_content resp = Inl e" using message_content_None by blast
    then show ?thesis
      using Some None by (simp add: generate_ai_insight_def assms and_then_Inr)
  next
    case (Some raw)
    then have "message_content resp = Inr (strip raw)" by (simp add: message_content_Inr)
    then show ?thesis
      using \<open>call_groq_chat w payload = Some resp\<close> Some
      by (simp add: generate_ai_insight_def assms and_then_Inr looks_truncated_iff)
  qed
qed

lemma many_words_unfold: "0 < n \<Longrightarrow> many_words n = CHR ''w'' # CHR '' '' # many_words (n - 1)"
  by (cases n) (simp_all add: many_words_def)

lemma strip_cut_reply: "strip cut_reply = cut_reply"
proof -
  have "many_words 300 = CHR ''w'' # CHR '' '' # many_words 299"
    by (simp add: many_words_unfold)
  then show ?thesis
    by (simp add: cut_reply_def strip_def lstrip_def rstrip_def isspace_def code_def)
qed

lemma words_cut_reply: "length (split_ws cut_reply) = 301"
  by (simp add: cut_reply_def split_ws_many_words split_ws_word split_ws_Nil isspace_def code_def)

lemma reply_content_chat: "reply_content (chat_reply t) = Some t" "truthy (chat_reply t)"
  by (simp_all add: reply_content_def chat_reply_def)

text \<open>
  C5, as the code has it. On a well-formed lead (news that are missing, null or a list of
  dictionaries, sources that are missing, null or a list of texts; every record of the
  aggregator is one) \<^verbatim>\<open>generate_ai_insight\<close> builds its request without an exception, and
  then returns a text in every case: the first fixed failure message when the
  language-model call fails entirely (no key, no response, a body that is not JSON) or
  the decoded reply is empty; the second one when the reply has no content text at
  \<^verbatim>\<open>choices[0].message.content\<close>; the fixed advisory when the content, trimmed, is not
  empty, does not end in a period, exclamation mark or question mark and has more than
  300 words; and the trimmed content in every other case. The three fixed messages are
  not empty. On a lead with a news item among the first three that is not a dictionary,
  the function raises \<^verbatim>\<open>AttributeError\<close>, whatever the language model would answer.
\<close>

theorem generate_ai_insight_outcomes:
  "(well_formed_lead lead \<longrightarrow>
      (\<exists>payload. insight_payload w lead flag = Inr payload
         \<and> (key_missing (GROQ_API_KEY w) \<or> post_groq w payload = NoRawReply
              \<or> post_groq w payload = NotJson
            \<longrightarrow> generate_ai_insight w lead flag = Inr analysis_failed)
         \<and> (\<forall>resp. \<not> key_missing (GROQ_API_KEY w) \<and> post_groq w payload = Json resp \<longrightarrow>
              generate_ai_insight w lead flag =
                Inr (if \<not> truthy resp then analysis_failed
                     else case reply_content resp of
                            None \<Rightarrow> analysis_error
                          | Some raw \<Rightarrow>
                              if strip raw \<noteq> []
                                 \<and> last (strip raw) \<notin> {CHR ''.'', CHR ''!'', CHR ''?''}
                                 \<and> 300 < length (split_ws (strip raw))
                              then analysis_truncated else strip raw))))
   \<and> (\<forall>items. get_or lead ''news'' (JList []) = JList items
          \<and> \<not> list_all is_dict (take 3 items) \<longrightarrow>
        generate_ai_insight w lead flag = Inl AttributeError)
   \<and> well_formed_lead (lead_of r)
   \<and> analysis_failed \<noteq> [] \<and> analysis_error \<noteq> [] \<and> analysis_truncated \<noteq> []"
proof -
  have a: "\<exists>payload. insight_payload w lead flag = Inr payload
         \<and> (key_missing (GROQ_API_KEY w) \<or> post_groq w payload = NoRawReply
              \<or> post_groq w payload = NotJson
            \<longrightarrow> generate_ai_insight w lead flag = Inr analysis_failed)
         \<and> (\<forall>resp. \<not> key_missing (GROQ_API_KEY w) \<and> post_groq w payload = Json resp \<longrightarrow>
              generate_ai_insight w lead flag =
                Inr (if \<not> truthy resp then analysis_failed
                     else case reply_content resp of
                            None \<Rightarrow> analysis_error
                          | Some raw \<Rightarrow>
                              if strip raw \<noteq> []
                                 \<and> last (strip raw) \<notin> {CHR ''.'', CHR ''!'', CHR ''?''}
                                 \<and> 300 < length (split_ws (strip raw))
                              then analysis_truncated else strip raw))"
    if wf: "well_formed_lead lead"
  proof -
    obtain prompt_context where "insight_context w lead flag = Inr prompt_context"
      using insight_context_well_formed [OF wf] by blast
    then obtain payload where p: "insight_payload w lead flag = Inr payload"
      by (simp add: insight_payload_def and_then_Inr)
    note c = generate_ai_insight_cases [OF p]
    have 1: "key_missing (GROQ_API_KEY w) \<or> post_groq w payload = NoRawReply
              \<or> post_groq w payload = NotJson
            \<longrightarrow> generate_ai_insight w lead flag = Inr analysis_failed"
      unfolding c by (auto simp: call_groq_chat_def)
    have 2: "\<forall>resp. \<not> key_missing (GROQ_API_KEY w) \<and> post_groq w payload = Json resp \<longrightarrow>
              generate_ai_insight w lead flag =
                Inr (if \<not> truthy resp then analysis_failed
                     else case reply_content resp of
                            None \<Rightarrow> analysis_error
                          | Some raw \<Rightarrow>
                              if strip raw \<noteq> []
                                 \<and> last (strip raw) \<notin> {CHR ''.'', CHR ''!'', CHR ''?''}
                                 \<and> 300 < length (split_ws (strip raw))
                              then analysis_truncated else strip raw)"
      unfolding c by (simp add: call_groq_chat_def)
    from p 1 2 show ?thesis by blast
  qed
  have b: "\<forall>items. get_or lead ''news'' (JList []) = JList items
          \<and> \<not> list_all is_dict (take 3 items) \<longrightarrow>
        generate_ai_insight w lead flag = Inl AttributeError"
    using insight_context_raises [of lead _ w flag]
    by (auto simp: generate_ai_insight_def insight_payload_def and_then_Inl)
  have c: "analysis_failed \<noteq> [] \<and> analysis_error \<noteq> [] \<and> analysis_truncated \<noteq> []"
    by (simp add: analysis_failed_def analysis_error_def analysis_truncated_def)
  from a b c well_formed_lead_of [of r] show ?thesis by blast
qed

theorem generate_ai_insight_outcomes_witness:
  "well_formed_lead (lead_of acme)
   \<and> generate_ai_insight offline (lead_of acme) False = Inr analysis_failed
   \<and> generate_ai_insight (chatty (JDict [(''error'', JStr ''rate limit'')])) (lead_of acme) False
       = Inr analysis_error
   \<and> generate_ai_insight (chatty (chat_reply '' All three sections. '')) (lead_of acme) False
       = Inr ''All three sections.''
   \<and> generate_ai_insight (chatty (chat_reply cut_reply)) (lead_of acme) False
       = Inr analysis_truncated
   \<and> generate_ai_insight (chatty (chat_reply ''All three sections.''))
         [(''company_name'', JStr ''Acme''),
          (''news'', JList [JDict [(''title'', JStr ''Acme hires'')], JNum 7])] False
       = Inl AttributeError"
proof -
  note t = generate_ai_insight_outcomes [where lead = "lead_of acme" and flag = False and r = acme]
  have wf: "well_formed_lead (lead_of acme)"
    using t [of offline] by blast
  have k: "key_missing (GROQ_API_KEY offline)"
    by (simp add: offline_def key_missing_def)
  have g: "\<not> key_missing (GROQ_API_KEY (chatty j))" "post_groq (chatty j) p = Json j" for j p
    by (simp_all add: chatty_def offline_def key_missing_def)
  have e: "truthy (JDict [(''error'', JStr ''rate limit'')])"
    "reply_content (JDict [(''error'', JStr ''rate limit'')]) = None"
    by (simp_all add: reply_content_def)
  have s: "strip '' All three sections. '' = ''All three sections.''"
    by code_simp
  have l: "last cut_reply = CHR ''d''" "cut_reply \<noteq> []"
    by (simp_all add: cut_reply_def)
  have w1: "generate_ai_insight offline (lead_of acme) False = Inr analysis_failed"
    using t [of offline] wf k by blast
  have w2: "generate_ai_insight (chatty (JDict [(''error'', JStr ''rate limit'')]))
              (lead_of acme) False = Inr analysis_error"
    using t [of "chatty (JDict [(''error'', JStr ''rate limit'')])"] wf g e by auto
  have w3: "generate_ai_insight (chatty (chat_reply '' All three sections. ''))
              (lead_of acme) False = Inr ''All three sections.''"
    using t [of "chatty (chat_reply '' All three sections. '')"] wf g reply_content_chat s
    by auto
  have w4: "generate_ai_insight (chatty (chat_reply cut_reply)) (lead_of acme) False
              = Inr analysis_truncated"
    using t [of "chatty (chat_reply cut_reply)"] wf g reply_content_chat strip_cut_reply
      words_cut_reply l
    by auto
  have n: "get_or [(''company_name'', JStr ''Acme''),
                   (''news'', JList [JDict [(''title'', JStr ''Acme hires'')], JNum 7])]
             ''news'' (JList [])
           = JList [JDict [(''title'', JStr ''Acme hires'')], JNum 7]
           \<and> \<not> list_all is_dict (take 3 [JDict [(''title'', JStr ''Acme hires'')], JNum 7])"
    by (simp add: get_or_def)
  have w5: "generate_ai_insight (chatty (chat_reply ''All three sections.''))
         [(''company_name'', JStr ''Acme''),
          (''news'', JList [JDict [(''title'', JStr ''Acme hires'')], JNum 7])] False
       = Inl AttributeError"
    using generate_ai_insight_outcomes
      [of "[(''company_name'', JStr ''Acme''),
            (''news'', JList [JDict [(''title'', JStr ''Acme hires'')], JNum 7])]"
          "chatty (chat_reply ''All three sections.'')" False acme] n
    by blast
  from wf w1 w2 w3 w4 w5 show ?thesis by blast
qed

text \<open>
  C5 as the specification states it fails on a lead whose news are headlines: with no key
  for the language model the call would fail entirely, yet the function does not return
  the fixed failure message: it raises \<^verbatim>\<open>AttributeError\<close> while it formats the news, before
  it calls the model.
\<close>

theorem generate_ai_insight_raises_on_headlines:
  "key_missing (GROQ_API_KEY offline)
   \<and> generate_ai_insight offline posted_lead False = Inl AttributeError
   \<and> generate_ai_insight offline posted_lead False \<noteq> Inr analysis_failed"
proof -
  have k: "key_missing (GROQ_API_KEY offline)"
    by (simp add: offline_def key_missing_def)
  have n: "get_or posted_lead ''news'' (JList []) = JList [JStr ''Acme launches rocket'']"
    by (simp add: posted_lead_def get_or_def)
  have "insight_context offline posted_lead False = Inl AttributeError"
    using n by (rule insight_context_raises) simp
  then have r: "generate_ai_insight offline posted_lead False = Inl AttributeError"
    by (simp add: generate_ai_insight_def insight_payload_def and_then_Inl)
  from k r show ?thesis by simp
qed

section \<open>The summary lookup\<close>

lemma scan_related_unbound:
  "scan_related None rs = Inr [] \<or> scan_related None rs = Inl UnboundLocalError"
proof (induction rs)
  case Nil
  then show ?case by simp
next
  case (Cons r rs)
  then show ?case by (cases r) (auto simp: Let_def)
qed

lemma fetch_duckduckgo_summary_empty_primary:
  assumes "\<And>q data. get_duckduckgo w q True = Reply data \<Longrightarrow>
             AbstractText data = [] \<and> Heading data = []"
  shows "fetch_duckduckgo_summary w company = []"
proof -
  define q where "q = (if lower company \<in> set summary_common_words
               then company @ '' company tech startup business'' else company)"
  show ?thesis
  proof (cases "get_duckduckgo w q True")
    case (Reply data)
    then have "AbstractText data = []" "Heading data = []" using assms by blast+
    then have "primary_summary data = ([], None)"
      by (simp add: primary_summary_def por_def)
    then show ?thesis
      using Reply scan_related_unbound [of "RelatedTopics data"]
      unfolding fetch_duckduckgo_summary_def q_def [symmetric] Let_def
      by auto
  qed (simp_all add: fetch_duckduckgo_summary_def q_def [symmetric] Let_def)
qed

text \<open>
  C2 does not hold of the code. With both primary fields empty the variable
  \<^verbatim>\<open>company_indicators\<close> is never assigned, the scan of the related topics raises
  \<^verbatim>\<open>UnboundLocalError\<close> at the first topic with a text, and \<^verbatim>\<open>fetch_duckduckgo_summary\<close>
  returns the empty string although that topic names a company. The same scan with the
  variable assigned finds the topic, and so does the function itself when the primary
  field held a long abstract that it discarded.
\<close>

theorem fetch_duckduckgo_summary_skips_related:
  "fetch_duckduckgo_summary (answering topics_only) ''Acme'' = []
   \<and> scan_related None (RelatedTopics topics_only) = Inl UnboundLocalError
   \<and> scan_related (Some company_indicators) (RelatedTopics topics_only)
       = Inr ''Acme Corporation is a software company.''
   \<and> fetch_duckduckgo_summary (answering conceptual) ''Acme''
       = ''Acme Corporation is a software company.''"
proof -
  have a: "fetch_duckduckgo_summary (answering topics_only) ''Acme'' = []"
    by code_simp
  have b: "scan_related None (RelatedTopics topics_only) = Inl UnboundLocalError"
    by code_simp
  have c: "scan_related (Some company_indicators) (RelatedTopics topics_only)
       = Inr ''Acme Corporation is a software company.''"
    by code_simp
  have d: "fetch_duckduckgo_summary (answering conceptual) ''Acme''
       = ''Acme Corporation is a software company.''"
    by code_simp
  from a b c d show ?thesis by blast
qed

section \<open>The research aggregator\<close>

lemma sources_record_source [simp]: "sources_used (record_source l r) = sources_used r @ [l]"
  by (simp add: record_source_def)

lemma canonical_record_source [simp]: "canonical_name (record_source l r) = canonical_name r"
  by (simp add: record_source_def)

lemma summary_record_source [simp]: "summary (record_source l r) = summary r"
  by (simp add: record_source_def)

lemma discover_website_sources:
  "sources_used (results (discover_website w name st)) = sources_used (results st)"
  by (simp add: discover_website_def Let_def)

lemma derive_domain_sources:
  "sources_used (results (derive_domain w name st)) = sources_used (results st)"
  by (simp add: derive_domain_def)

lemma brand_stage_sources:
  "sources_used (results (brand_stage w name st)) =
     sources_used (results st) @
     (if domain st \<noteq> [] \<and> fetch_brandfetch_data_enhanced w (domain st) \<noteq> []
      then [''Brandfetch''] else [])"
  by (simp add: brand_stage_def Let_def)

lemma content_stage_sources:
  "sources_used (results (content_stage w name st)) =
     sources_used (results st) @
     (if site st \<noteq> [] \<and> scrape_website_content w (site st) \<noteq> []
      then [''Website Content''] else [])"
  by (simp add: content_stage_def Let_def)

lemma summary_stage_sources:
  "sources_used (results (summary_stage w name st)) =
     sources_used (results st) @
     (if fetch_duckduckgo_summary w (canonical_name (results st)) \<noteq> [] then [''DuckDuckGo'']
      else if website_content st \<noteq> [] then [''Website Summary''] else [])"
  by (simp add: summary_stage_def Let_def)

lemma news_stage_sources:
  "sources_used (results (news_stage w name st)) =
     sources_used (results st) @
     (if fetch_news_articles_enhanced w (canonical_name (results st)) (domain st) 5 \<noteq> []
      then [''NewsData''] else [])"
  by (simp add: news_stage_def Let_def)

lemma industry_stage_sources:
  "sources_used (results (industry_stage w name st)) =
     sources_used (results st) @
     (if summary (results st) \<noteq> [] then [''AI Industry Classification''] else [])"
  by (simp add: industry_stage_def)

lemma stage_appends:
  assumes "stage \<in> set stages"
  shows "\<exists>ls. sources_used (results (stage w name st)) = sources_used (results st) @ ls
           \<and> length ls \<le> 1 \<and> set ls \<subseteq> set stage_labels"
proof -
  from assms consider "stage = discover_website" | "stage = derive_domain"
    | "stage = brand_stage" | "stage = content_stage" | "stage = summary_stage"
    | "stage = news_stage" | "stage = industry_stage"
    by (auto simp: stages_def)
  then show ?thesis
  proof cases
    case 1 then show ?thesis by (simp add: discover_website_sources)
  next
    case 2 then show ?thesis by (simp add: derive_domain_sources)
  next
    case 3 then show ?thesis by (simp add: brand_stage_sources stage_labels_def)
  next
    case 4 then show ?thesis by (simp add: content_stage_sources stage_labels_def)
  next
    case 5 then show ?thesis by (simp add: summary_stage_sources stage_labels_def)
  next
    case 6 then show ?thesis by (simp add: news_stage_sources stage_labels_def)
  next
    case 7 then show ?thesis by (simp add: industry_stage_sources stage_labels_def)
  qed
qed

lemma after_stages_Suc:
  assumes "k < length stages"
  shows "after_stages (Suc k) w name url = (stages ! k) w name (after_stages k w name url)"
  using assms by (simp add: after_stages_def take_Suc_conv_app_nth)

lemma after_stages_0: "after_stages 0 w name url = initial_locals name url"
  by (simp add: after_stages_def)

lemma discover_website_fields:
  "site (discover_website w name st) = (if site st = [] then find_official_website w name else site st)"
  "domain (discover_website w name st) = domain st"
  "website_content (discover_website w name st) = website_content st"
  "canonical_name (results (discover_website w name st)) = canonical_name (results st)"
  "summary (results (discover_website w name st)) = summary (results st)"
  by (simp_all add: discover_website_def Let_def)

lemma derive_domain_fields:
  "site (derive_domain w name st) = site st"
  "domain (derive_domain w name st) =
     (if site st \<noteq> [] then extract_domain (ipaddress_ip6 w) (site st) else [])"
  "website_content (derive_domain w name st) = website_content st"
  "canonical_name (results (derive_domain w name st)) = canonical_name (results st)"
  "summary (results (derive_domain w name st)) = summary (results st)"
  by (simp_all add: derive_domain_def)

lemma brand_stage_fields:
  "site (brand_stage w name st) = site st"
  "domain (brand_stage w name st) = domain st"
  "website_content (brand_stage w name st) = website_content st"
  "canonical_name (results (brand_stage w name st)) =
     (if domain st \<noteq> [] \<and> fetch_brandfetch_data_enhanced w (domain st) \<noteq> []
      then dict_get (fetch_brandfetch_data_enhanced w (domain st)) ''name'' name
      else canonical_name (results st))"
  "summary (results (brand_stage w name st)) = summary (results st)"
  by (simp_all add: brand_stage_def Let_def)

lemma content_stage_fields:
  "site (content_stage w name st) = site st"
  "domain (content_stage w name st) = domain st"
  "website_content (content_stage w name st) =
     (if site st \<noteq> [] then scrape_website_content w (site st) else [])"
  "canonical_name (results (content_stage w name st)) = canonical_name (results st)"
  "summary (results (content_stage w name st)) = summary (results st)"
  by (simp_all add: content_stage_def Let_def)

lemma summary_stage_fields:
  "site (summary_stage w name st) = site st"
  "domain (summary_stage w name st) = domain st"
  "website_content (summary_stage w name st) = website_content st"
  "canonical_name (results (summary_stage w name st)) = canonical_name (results st)"
  "summary (results (summary_stage w name st)) =
     (if fetch_duckduckgo_summary w (canonical_name (results st)) \<noteq> []
      then fetch_duckduckgo_summary w (canonical_name (results st))
      else if website_content st \<noteq> [] then website_content st
      else summary (results st))"
  by (simp_all add: summary_stage_def Let_def)

lemma news_stage_fields:
  "site (news_stage w name st) = site st"
  "domain (news_stage w name st) = domain st"
  "website_content (news_stage w name st) = website_content st"
  "canonical_name (results (news_stage w name st)) = canonical_name (results st)"
  "summary (results (news_stage w name st)) = summary (results st)"
  by (simp_all add: news_stage_def Let_def)

lemma industry_stage_fields:
  "site (industry_stage w name st) = site st"
  "domain (industry_stage w name st) = domain st"
  "website_content (industry_stage w name st) = website_content st"
  "canonical_name (results (industry_stage w name st)) = canonical_name (results st)"
  "summary (results (industry_stage w name st)) = summary (results st)"
  by (simp_all add: industry_stage_def)

lemma initial_locals_fields:
  "site (initial_locals name url) = url"
  "canonical_name (results (initial_locals name url)) = name"
  "summary (results (initial_locals name url)) = []"
  "sources_used (results (initial_locals name url)) = []"
  by (simp_all add: initial_locals_def)


lemma after_stages_unfold:
  "after_stages (Suc 0) w name url = discover_website w name (initial_locals name url)"
  "after_stages 2 w name url = derive_domain w name (after_stages (Suc 0) w name url)"
  "after_stages 3 w name url = brand_stage w name (after_stages 2 w name url)"
  "after_stages 4 w name url = content_stage w name (after_stages 3 w name url)"
  "after_stages 5 w name url = summary_stage w name (after_stages 4 w name url)"
  "after_stages 6 w name url = news_stage w name (after_stages 5 w name url)"
  "after_stages 7 w name url = industry_stage w name (after_stages 6 w name url)"
  by (simp_all add: after_stages_def stages_def)

lemma after_1:
  "site (after_stages (Suc 0) w name url) = effective_website w name url"
  "canonical_name (results (after_stages (Suc 0) w name url)) = name"
  "summary (results (after_stages (Suc 0) w name url)) = []"
  "sources_used (results (after_stages (Suc 0) w name url)) = []"
  by (simp_all add: after_stages_unfold(1) discover_website_fields discover_website_sources
      initial_locals_fields effective_website_def)

lemma after_2:
  "site (after_stages 2 w name url) = effective_website w name url"
  "domain (after_stages 2 w name url) = effective_domain w name url"
  "canonical_name (results (after_stages 2 w name url)) = name"
  "summary (results (after_stages 2 w name url)) = []"
  "sources_used (results (after_stages 2 w name url)) = []"
  by (simp_all add: after_stages_unfold(2) derive_domain_fields derive_domain_sources
      after_1 effective_domain_def)

lemma after_3:
  "site (after_stages 3 w name url) = effective_website w name url"
  "domain (after_stages 3 w name url) = effective_domain w name url"
  "canonical_name (results (after_stages 3 w name url)) = effective_name w name url"
  "summary (results (after_stages 3 w name url)) = []"
  "sources_used (results (after_stages 3 w name url)) = brand_label w name url"
  by (simp_all add: after_stages_unfold(3) brand_stage_fields brand_stage_sources
      after_2 effective_name_def brand_label_def Let_def)

lemma after_4:
  "domain (after_stages 4 w name url) = effective_domain w name url"
  "website_content (after_stages 4 w name url) = effective_content w name url"
  "canonical_name (results (after_stages 4 w name url)) = effective_name w name url"
  "summary (results (after_stages 4 w name url)) = []"
  "sources_used (results (after_stages 4 w name url)) =
     brand_label w name url @ content_label w name url"
  by (simp_all add: after_stages_unfold(4) content_stage_fields content_stage_sources
      after_3 effective_content_def content_label_def)

lemma after_5:
  "domain (after_stages 5 w name url) = effective_domain w name url"
  "canonical_name (results (after_stages 5 w name url)) = effective_name w name url"
  "summary (results (after_stages 5 w name url)) = effective_summary w name url"
  "sources_used (results (after_stages 5 w name url)) =
     brand_label w name url @ content_label w name url @ summary_label w name url"
  by (simp_all add: after_stages_unfold(5) summary_stage_fields summary_stage_sources
      after_4 effective_summary_def summary_label_def)

lemma after_6:
  "canonical_name (results (after_stages 6 w name url)) = effective_name w name url"
  "summary (results (after_stages 6 w name url)) = effective_summary w name url"
  "sources_used (results (after_stages 6 w name url)) =
     brand_label w name url @ content_label w name url @ summary_label w name url
     @ news_label w name url"
  by (simp_all add: after_stages_unfold(6) news_stage_fields news_stage_sources
      after_5 news_label_def)

lemma after_7:
  "canonical_name (results (after_stages 7 w name url)) = effective_name w name url"
  "summary (results (after_stages 7 w name url)) = effective_summary w name url"
  "sources_used (results (after_stages 7 w name url)) =
     brand_label w name url @ content_label w name url @ summary_label w name url
     @ news_label w name url @ industry_label w name url"
  by (simp_all add: after_stages_unfold(7) industry_stage_fields industry_stage_sources
      after_6 industry_label_def)

lemma research_is_after_7:
  "research_company_thoroughly w name url = results (after_stages 7 w name url)"
  by (simp add: research_company_thoroughly_def after_stages_unfold)

lemma labels_subseq:
  "subseq (brand_label w name url @ content_label w name url @ summary_label w name url
     @ news_label w name url @ industry_label w name url) stage_labels"
  by (simp add: brand_label_def content_label_def summary_label_def news_label_def
      industry_label_def stage_labels_def)


lemma fetch_brandfetch_data_shape:
  "fetch_brandfetch_data w d = [] \<or> dict_get (fetch_brandfetch_data w d) ''name'' [] \<noteq> []"
  by (auto simp: fetch_brandfetch_data_def dict_get_def por_def Let_def split: reply.splits)

lemma try_variations_shape:
  "try_variations w c bd vs = bd \<or> dict_get (try_variations w c bd vs) ''name'' [] \<noteq> []"
  by (induction vs) (auto simp: Let_def)

lemma brand_without_name_is_empty:
  assumes "dict_get (fetch_brandfetch_data_enhanced w d) ''name'' [] = []"
  shows "fetch_brandfetch_data_enhanced w d = []"
proof (cases "d = []")
  case True
  then show ?thesis by (simp add: fetch_brandfetch_data_enhanced_def)
next
  case False
  define c where "c = hd (split_on CHR ''/'' (replace ''www.'' [] d))"
  define vs where "vs = [c, ''www.'' @ c, replace ''.com'' ''.co'' c, replace ''.io'' ''.com'' c]"
  have e: "fetch_brandfetch_data_enhanced w d = fetch_brandfetch_data w c
      \<or> fetch_brandfetch_data_enhanced w d = try_variations w c (fetch_brandfetch_data w c) vs"
    using False by (simp add: fetch_brandfetch_data_enhanced_def Let_def c_def vs_def)
  then have "fetch_brandfetch_data_enhanced w d = fetch_brandfetch_data w c"
    using try_variations_shape [of w c "fetch_brandfetch_data w c" vs] assms by auto
  then show ?thesis
    using fetch_brandfetch_data_shape [of w c] assms by auto
qed

text \<open>
  C3. In one run of \<^verbatim>\<open>research_company_thoroughly\<close> each of the seven steps leaves
  \<^verbatim>\<open>sources_used\<close> as it is or appends one label to it, so nothing recorded is removed or
  moved; the list starts empty, and the list of the returned record is a subsequence of
  the labels in the order of the steps.
\<close>

theorem sources_used_only_grows:
  "(\<forall>k<length stages. \<exists>ls.
       sources_used (results (after_stages (Suc k) w name url)) =
         sources_used (results (after_stages k w name url)) @ ls
       \<and> length ls \<le> 1 \<and> set ls \<subseteq> set stage_labels)
   \<and> length stages = 7
   \<and> sources_used (results (after_stages 0 w name url)) = []
   \<and> research_company_thoroughly w name url = results (after_stages 7 w name url)
   \<and> subseq (sources_used (research_company_thoroughly w name url)) stage_labels"
proof -
  have step: "\<forall>k<length stages. \<exists>ls.
       sources_used (results (after_stages (Suc k) w name url)) =
         sources_used (results (after_stages k w name url)) @ ls
       \<and> length ls \<le> 1 \<and> set ls \<subseteq> set stage_labels"
  proof (intro allI impI)
    fix k assume k: "k < length stages"
    then have "stages ! k \<in> set stages" by simp
    then show "\<exists>ls. sources_used (results (after_stages (Suc k) w name url)) =
         sources_used (results (after_stages k w name url)) @ ls
       \<and> length ls \<le> 1 \<and> set ls \<subseteq> set stage_labels"
      using stage_appends [of "stages ! k" w name "after_stages k w name url"]
      by (simp add: after_stages_Suc [OF k])
  qed
  have n: "length stages = 7" by (simp add: stages_def)
  have z: "sources_used (results (after_stages 0 w name url)) = []"
    by (simp add: after_stages_0 initial_locals_fields)
  have s: "subseq (sources_used (research_company_thoroughly w name url)) stage_labels"
    by (simp only: research_is_after_7 after_7 labels_subseq)
  from step n z s research_is_after_7 show ?thesis by blast
qed

theorem sources_used_only_grows_witness:
  "(\<exists>ls. sources_used (results (after_stages 4 (serving blank_page) ''Acme''
                                  ''https://example.com'')) =
           sources_used (results (after_stages 3 (serving blank_page) ''Acme''
                                  ''https://example.com'')) @ ls
         \<and> length ls \<le> 1 \<and> set ls \<subseteq> set stage_labels)
   \<and> sources_used (research_company_thoroughly (serving blank_page) ''Acme''
                     ''https://example.com'')
       = [''Website Content'', ''Website Summary'', ''AI Industry Classification'']
   \<and> subseq [''Website Content'', ''Website Summary'', ''AI Industry Classification'']
        stage_labels"
proof -
  note t = sources_used_only_grows [of "serving blank_page" "''Acme''" "''https://example.com''"]
  have v: "sources_used (research_company_thoroughly (serving blank_page) ''Acme''
                     ''https://example.com'')
       = [''Website Content'', ''Website Summary'', ''AI Industry Classification'']"
    by code_simp
  have k: "(3::nat) < length stages" by (simp add: stages_def)
  have "\<exists>ls. sources_used (results (after_stages (Suc 3) (serving blank_page) ''Acme''
                                  ''https://example.com'')) =
           sources_used (results (after_stages 3 (serving blank_page) ''Acme''
                                  ''https://example.com'')) @ ls
         \<and> length ls \<le> 1 \<and> set ls \<subseteq> set stage_labels"
    using t k by blast
  moreover have "Suc 3 = 4" by simp
  ultimately have a: "\<exists>ls. sources_used (results (after_stages 4 (serving blank_page) ''Acme''
                                  ''https://example.com'')) =
           sources_used (results (after_stages 3 (serving blank_page) ''Acme''
                                  ''https://example.com'')) @ ls
         \<and> length ls \<le> 1 \<and> set ls \<subseteq> set stage_labels"
    by metis
  have "subseq (sources_used (research_company_thoroughly (serving blank_page) ''Acme''
                     ''https://example.com'')) stage_labels"
    using t by blast
  then have b: "subseq [''Website Content'', ''Website Summary'', ''AI Industry Classification'']
        stage_labels"
    by (simp only: v)
  from a v b show ?thesis by blast
qed

text \<open>
  C1. When the brand lookup returns no name, the returned \<^verbatim>\<open>canonical_name\<close> is the company
  name given to \<^verbatim>\<open>research_company_thoroughly\<close>. When the summary lookup returns the empty
  string and the website-content adapter returned a non-empty string, the returned
  \<^verbatim>\<open>summary\<close> is that website content, and \<^verbatim>\<open>sources_used\<close> has the label
  \<^verbatim>\<open>Website Summary\<close> and not the label \<^verbatim>\<open>DuckDuckGo\<close>.
\<close>

theorem aggregator_fallback_chain:
  "(dict_get (fetch_brandfetch_data_enhanced w (effective_domain w name url)) ''name'' [] = []
      \<longrightarrow> canonical_name (research_company_thoroughly w name url) = name)
   \<and> (fetch_duckduckgo_summary w (canonical_name (research_company_thoroughly w name url)) = []
       \<and> effective_content w name url \<noteq> [] \<longrightarrow>
       summary (research_company_thoroughly w name url) = effective_content w name url
       \<and> ''Website Summary'' \<in> set (sources_used (research_company_thoroughly w name url))
       \<and> ''DuckDuckGo'' \<notin> set (sources_used (research_company_thoroughly w name url)))"
proof -
  have a: "dict_get (fetch_brandfetch_data_enhanced w (effective_domain w name url)) ''name'' [] = []
      \<longrightarrow> canonical_name (research_company_thoroughly w name url) = name"
    using brand_without_name_is_empty [of w "effective_domain w name url"]
    by (simp add: research_is_after_7 after_7 effective_name_def)
  have b: "fetch_duckduckgo_summary w (canonical_name (research_company_thoroughly w name url)) = []
       \<and> effective_content w name url \<noteq> [] \<longrightarrow>
       summary (research_company_thoroughly w name url) = effective_content w name url
       \<and> ''Website Summary'' \<in> set (sources_used (research_company_thoroughly w name url))
       \<and> ''DuckDuckGo'' \<notin> set (sources_used (research_company_thoroughly w name url))"
    by (simp add: research_is_after_7 after_7 effective_summary_def brand_label_def
        content_label_def summary_label_def news_label_def industry_label_def)
  from a b show ?thesis by blast
qed

theorem aggregator_fallback_chain_witness:
  "dict_get (fetch_brandfetch_data_enhanced (serving acme_page)
       (effective_domain (serving acme_page) ''Acme'' ''https://example.com'')) ''name'' [] = []
   \<and> canonical_name (research_company_thoroughly (serving acme_page) ''Acme''
                        ''https://example.com'') = ''Acme''
   \<and> fetch_duckduckgo_summary (serving acme_page) ''Acme'' = []
   \<and> effective_content (serving acme_page) ''Acme'' ''https://example.com'' =
       ''Title: Acme Rockets | Description: We build rockets. | Headings: Welcome | Content: Welcome We build rockets for everyone.''
   \<and> summary (research_company_thoroughly (serving acme_page) ''Acme'' ''https://example.com'') =
       ''Title: Acme Rockets | Description: We build rockets. | Headings: Welcome | Content: Welcome We build rockets for everyone.''
   \<and> ''Website Summary'' \<in> set (sources_used (research_company_thoroughly (serving acme_page)
                                      ''Acme'' ''https://example.com''))
   \<and> ''DuckDuckGo'' \<notin> set (sources_used (research_company_thoroughly (serving acme_page)
                                   ''Acme'' ''https://example.com''))"
proof -
  note t = aggregator_fallback_chain [of "serving acme_page" "''Acme''" "''https://example.com''"]
  have h1: "dict_get (fetch_brandfetch_data_enhanced (serving acme_page)
       (effective_domain (serving acme_page) ''Acme'' ''https://example.com'')) ''name'' [] = []"
    by code_simp
  have h2: "fetch_duckduckgo_summary (serving acme_page) ''Acme'' = []"
    by code_simp
  have h3: "effective_content (serving acme_page) ''Acme'' ''https://example.com'' =
       ''Title: Acme Rockets | Description: We build rockets. | Headings: Welcome | Content: Welcome We build rockets for everyone.''"
    by code_simp
  have c: "canonical_name (research_company_thoroughly (serving acme_page) ''Acme''
                        ''https://example.com'') = ''Acme''"
    using t h1 by blast
  have ne: "effective_content (serving acme_page) ''Acme'' ''https://example.com'' \<noteq> []"
    by (simp add: h3)
  have d: "fetch_duckduckgo_summary (serving acme_page)
       (canonical_name (research_company_thoroughly (serving acme_page) ''Acme''
                        ''https://example.com'')) = []"
    by (simp only: c h2)
  have r: "summary (research_company_thoroughly (serving acme_page) ''Acme'' ''https://example.com'')
        = effective_content (serving acme_page) ''Acme'' ''https://example.com''
     \<and> ''Website Summary'' \<in> set (sources_used (research_company_thoroughly (serving acme_page)
                                      ''Acme'' ''https://example.com''))
     \<and> ''DuckDuckGo'' \<notin> set (sources_used (research_company_thoroughly (serving acme_page)
                                   ''Acme'' ''https://example.com''))"
    using t d ne by blast
  from h1 c h2 h3 r show ?thesis by (simp only: h3) blast
qed

section \<open>The website-content adapter\<close>




lemma join_Cons: "join sep (w # ws) = (if ws = [] then w else w @ sep @ join sep ws)"
  by (cases ws) simp_all

lemma join_eq_Nil: "\<forall>p\<in>set ps. p \<noteq> [] \<Longrightarrow> join sep ps = [] \<longleftrightarrow> ps = []"
  by (cases ps) (simp_all add: join_Cons)







lemma labelled_if: "(if text \<noteq> [] then [label @ text] else []) = labelled label text"
  by (simp add: labelled_def)

lemma content_part:
  "(if extract_main_content page \<noteq> [] then [''Content: '' @ extract_main_content page]
    else if extract_first_paragraph page \<noteq> []
    then [''Content: '' @ extract_first_paragraph page] else [])
   = labelled ''Content: '' (chosen_content page)"
  by (simp add: labelled_def chosen_content_def)

lemma headings_part:
  "(if hs \<noteq> [] then [''Headings: '' @ join '', '' hs] else [])
   = (if hs = [] then [] else [''Headings: '' @ join '', '' hs])"
  by simp

lemma labelled_nonempty: "p \<in> set (labelled label text) \<Longrightarrow> p \<noteq> []"
  by (cases "text = []") (simp_all add: labelled_def)

lemma website_sentinel_nonempty: "website_sentinel \<noteq> []"
  by (simp add: website_sentinel_def)

text \<open>
  What the function returns for a parsed page, without the intermediate list: the filter
  on the parts removes nothing, since every part starts with its label.
\<close>

lemma page_summary_result:
  "page_summary page =
     (if extract_title page = [] \<and> extract_description page = []
         \<and> extract_headings page = [] \<and> chosen_content page = []
      then website_sentinel
      else join '' | ''
             (labelled ''Title: '' (extract_title page) @
              labelled ''Description: '' (extract_description page) @
              (if extract_headings page = [] then []
               else [''Headings: '' @ join '', '' (extract_headings page)]) @
              labelled ''Content: '' (chosen_content page)))"
proof -
  define parts where "parts =
     labelled ''Title: '' (extract_title page) @
     labelled ''Description: '' (extract_description page) @
     (if extract_headings page = [] then []
      else [''Headings: '' @ join '', '' (extract_headings page)]) @
     labelled ''Content: '' (chosen_content page)"
  have ne: "\<forall>p\<in>set parts. p \<noteq> []"
    unfolding parts_def by (auto simp: labelled_def)
  then have f: "filter (\<lambda>part. part \<noteq> []) parts = parts"
    by (simp add: filter_id_conv)
  have j: "join '' | '' parts = [] \<longleftrightarrow> parts = []"
    using join_eq_Nil [OF ne] by blast
  have e: "parts = [] \<longleftrightarrow> extract_title page = [] \<and> extract_description page = []
         \<and> extract_headings page = [] \<and> chosen_content page = []"
    unfolding parts_def by (simp add: labelled_def)
  have "page_summary page =
          (let joined = join '' | '' (filter (\<lambda>part. part \<noteq> []) parts)
           in if joined \<noteq> [] then joined else website_sentinel)"
    unfolding page_summary_def content_part
    unfolding parts_def labelled_if headings_part
    by (simp only: Let_def)
  also have "\<dots> = (if parts = [] then website_sentinel else join '' | '' parts)"
    using j by (simp add: f Let_def)
  finally show ?thesis using e unfolding parts_def by simp
qed



lemma page_summary_nonempty: "page_summary page \<noteq> []"
proof -
  define parts where "parts =
     labelled ''Title: '' (extract_title page) @
     labelled ''Description: '' (extract_description page) @
     (if extract_headings page = [] then []
      else [''Headings: '' @ join '', '' (extract_headings page)]) @
     labelled ''Content: '' (chosen_content page)"
  have ne: "\<forall>p\<in>set parts. p \<noteq> []"
    unfolding parts_def by (auto simp: labelled_def)
  have e: "parts = [] \<longleftrightarrow> extract_title page = [] \<and> extract_description page = []
         \<and> extract_headings page = [] \<and> chosen_content page = []"
    unfolding parts_def by (simp add: labelled_def)
  have r: "page_summary page = (if parts = [] then website_sentinel else join '' | '' parts)"
    using e unfolding parts_def by (simp add: page_summary_result)
  show ?thesis
  proof (cases "parts = []")
    case True
    then show ?thesis using r website_sentinel_nonempty by simp
  next
    case False
    then have "join '' | '' parts \<noteq> []" using join_eq_Nil [OF ne] by blast
    then show ?thesis using r False by simp
  qed
qed

lemma scrape_reply:
  "is_valid_url (ipaddress_ip6 w) url \<Longrightarrow> get_website w url = Reply page \<Longrightarrow>
   scrape_website_content w url = page_summary page"
  by (auto simp: scrape_website_content_def is_valid_url_def)


lemma get_website_serving: "get_website (serving page) url = Reply page"
  by (simp add: serving_def offline_def)

lemma ip6_serving: "ipaddress_ip6 (serving page) = reject_ip6"
  by (simp add: serving_def offline_def)

lemma valid_example: "is_valid_url reject_ip6 ''https://example.com''"
  by code_simp

lemma page_summary_blank:
  assumes "extract_title page = []" "extract_description page = []"
    "extract_headings page = []" "extract_main_content page = []"
    "extract_first_paragraph page = []"
  shows "page_summary page = website_sentinel"
  using assms by (simp add: page_summary_result chosen_content_def)

lemma research_records_content:
  assumes "is_valid_url (ipaddress_ip6 w) (effective_website w name url)"
    and "get_website w (effective_website w name url) = Reply page"
  shows "''Website Content'' \<in> set (sources_used (research_company_thoroughly w name url))"
proof -
  have ne: "effective_website w name url \<noteq> []"
    using assms(1) by (auto simp: is_valid_url_def)
  have "scrape_website_content w (effective_website w name url) \<noteq> []"
    using scrape_reply [OF assms] page_summary_nonempty by simp
  then have "effective_content w name url \<noteq> []"
    using ne by (simp add: effective_content_def)
  then have "content_label w name url = [''Website Content'']"
    by (simp add: content_label_def)
  then show ?thesis
    by (simp add: research_is_after_7 after_7)
qed




text \<open>
  C10. For a page that is fetched and parsed, \<^verbatim>\<open>scrape_website_content\<close> never returns the
  empty string, and returns the fixed sentence when title, description, headings, main
  content and first paragraph are all empty. So \<^verbatim>\<open>research_company_thoroughly\<close> records
  the label \<^verbatim>\<open>Website Content\<close> whenever the page of its website is fetched and parsed;
  on a page without any text it adopts the fixed sentence as the summary.
\<close>

theorem successful_scrape_is_recorded:
  "(\<forall>page. is_valid_url (ipaddress_ip6 w) url \<and> get_website w url = Reply page \<longrightarrow>
       scrape_website_content w url \<noteq> []
       \<and> (extract_title page = [] \<and> extract_description page = []
            \<and> extract_headings page = [] \<and> extract_main_content page = []
            \<and> extract_first_paragraph page = []
          \<longrightarrow> scrape_website_content w url = website_sentinel))
   \<and> website_sentinel = ''Website content extracted but limited text available''
   \<and> (\<forall>page. is_valid_url (ipaddress_ip6 w) (effective_website w name url0)
         \<and> get_website w (effective_website w name url0) = Reply page \<longrightarrow>
       ''Website Content'' \<in> set (sources_used (research_company_thoroughly w name url0)))
   \<and> summary (research_company_thoroughly (serving blank_page) ''Acme'' ''https://example.com'')
       = website_sentinel
   \<and> sources_used (research_company_thoroughly (serving blank_page) ''Acme''
                     ''https://example.com'')
       = [''Website Content'', ''Website Summary'', ''AI Industry Classification'']"
proof -
  have a: "\<forall>page. is_valid_url (ipaddress_ip6 w) url \<and> get_website w url = Reply page \<longrightarrow>
       scrape_website_content w url \<noteq> []
       \<and> (extract_title page = [] \<and> extract_description page = []
            \<and> extract_headings page = [] \<and> extract_main_content page = []
            \<and> extract_first_paragraph page = []
          \<longrightarrow> scrape_website_content w url = website_sentinel)"
    using scrape_reply [of w url] page_summary_nonempty page_summary_blank
    by metis
  have b: "website_sentinel = ''Website content extracted but limited text available''"
    by (simp add: website_sentinel_def)
  have c: "\<forall>page. is_valid_url (ipaddress_ip6 w) (effective_website w name url0)
         \<and> get_website w (effective_website w name url0) = Reply page \<longrightarrow>
       ''Website Content'' \<in> set (sources_used (research_company_thoroughly w name url0))"
    using research_records_content by blast
  have d: "summary (research_company_thoroughly (serving blank_page) ''Acme''
                      ''https://example.com'') = website_sentinel"
    by code_simp
  have e: "sources_used (research_company_thoroughly (serving blank_page) ''Acme''
                     ''https://example.com'')
       = [''Website Content'', ''Website Summary'', ''AI Industry Classification'']"
    by code_simp
  from a b c d e show ?thesis by blast
qed

theorem successful_scrape_is_recorded_witness:
  "is_valid_url (ipaddress_ip6 (serving blank_page)) ''https://example.com''
   \<and> get_website (serving blank_page) ''https://example.com'' = Reply blank_page
   \<and> scrape_website_content (serving blank_page) ''https://example.com'' \<noteq> []
   \<and> scrape_website_content (serving blank_page) ''https://example.com'' = website_sentinel
   \<and> ''Website Content'' \<in> set (sources_used (research_company_thoroughly
         (serving blank_page) ''Acme'' ''https://example.com''))"
proof -
  note t = successful_scrape_is_recorded
    [of "serving blank_page" "''https://example.com''" "''Acme''" "''https://example.com''"]
  have v: "is_valid_url (ipaddress_ip6 (serving blank_page)) ''https://example.com''"
    by (simp only: ip6_serving valid_example)
  have g: "get_website (serving blank_page) ''https://example.com'' = Reply blank_page"
    by (rule get_website_serving)
  have x: "extract_title blank_page = [] \<and> extract_description blank_page = []
            \<and> extract_headings blank_page = [] \<and> extract_main_content blank_page = []
            \<and> extract_first_paragraph blank_page = []"
    by code_simp
  have ew: "effective_website (serving blank_page) ''Acme'' ''https://example.com''
       = ''https://example.com''"
    by (simp add: effective_website_def)
  have s: "scrape_website_content (serving blank_page) ''https://example.com'' \<noteq> []
     \<and> scrape_website_content (serving blank_page) ''https://example.com'' = website_sentinel"
    using t v g x by blast
  have r: "''Website Content'' \<in> set (sources_used (research_company_thoroughly
         (serving blank_page) ''Acme'' ''https://example.com''))"
    using t v g ew by metis
  from v g s r show ?thesis by blast
qed

section \<open>The news adapter\<close>

lemma unique_articles_keys:
  "distinct (map title_key (unique_articles seen as))
   \<and> (\<forall>a\<in>set (unique_articles seen as). title_key a \<noteq> [] \<and> title_key a \<notin> seen)"
proof (induction as arbitrary: seen)
  case Nil
  then show ?case by simp
next
  case (Cons a as)
  show ?case
  proof (cases "title_key a \<noteq> [] \<and> title_key a \<notin> seen")
    case True
    then show ?thesis using Cons [of "insert (title_key a) seen"] by auto
  next
    case False
    then show ?thesis using Cons [of seen] by auto
  qed
qed

lemma unique_articles_subseq: "subseq (unique_articles seen as) as"
  by (induction as arbitrary: seen) auto

lemma unique_articles_first:
  "a \<in> set (unique_articles seen as) \<Longrightarrow>
   find (\<lambda>b. title_key b = title_key a) as = Some a"
proof (induction as arbitrary: seen)
  case Nil
  then show ?case by simp
next
  case (Cons b as)
  show ?case
  proof (cases "title_key b \<noteq> [] \<and> title_key b \<notin> seen")
    case True
    show ?thesis
    proof (cases "a = b")
      case True
      then show ?thesis by simp
    next
      case False
      then have in_rest: "a \<in> set (unique_articles (insert (title_key b) seen) as)"
        using Cons.prems True by auto
      then have "title_key a \<notin> insert (title_key b) seen"
        using unique_articles_keys [of "insert (title_key b) seen" as] by blast
      then have "title_key b \<noteq> title_key a" by auto
      then show ?thesis using Cons.IH [OF in_rest] by simp
    qed
  next
    case False
    then have in_rest: "a \<in> set (unique_articles seen as)"
      using Cons.prems by auto
    then have "title_key a \<noteq> [] \<and> title_key a \<notin> seen"
      using unique_articles_keys [of seen as] by blast
    then have "title_key b \<noteq> title_key a" using False by auto
    then show ?thesis using Cons.IH [OF in_rest] by simp
  qed
qed

lemma unique_articles_complete:
  "title_key ` set (unique_articles seen as) = title_key ` set as - seen - {[]}"
proof (induction as arbitrary: seen)
  case Nil
  then show ?case by simp
next
  case (Cons a as)
  show ?case
  proof (cases "title_key a \<noteq> [] \<and> title_key a \<notin> seen")
    case True
    then show ?thesis using Cons [of "insert (title_key a) seen"] by auto
  next
    case False
    then show ?thesis using Cons [of seen] by auto
  qed
qed

lemma unique_articles_indices:
  "unique_articles seen as =
     map (\<lambda>i. as ! i)
       (filter (\<lambda>i. title_key (as ! i) \<noteq> []
                     \<and> title_key (as ! i) \<notin> seen \<union> title_key ` set (take i as))
          [0..<length as])"
proof (induction as arbitrary: seen)
  case Nil
  then show ?case by simp
next
  case (Cons a as)
  define P where "P = (\<lambda>seen as i. title_key (as ! i) \<noteq> []
                     \<and> title_key (as ! i) \<notin> seen \<union> title_key ` set (take i as))"
  have IH: "unique_articles seen as = map (\<lambda>i. as ! i) (filter (P seen as) [0..<length as])"
    for seen
    unfolding P_def by (rule Cons.IH)
  have upt: "[0..<length (a # as)] = 0 # map Suc [0..<length as]"
    by (simp add: upt_conv_Cons map_Suc_upt del: upt_Suc)
  have shift: "P seen (a # as) (Suc i) = P (insert (title_key a) seen) as i" for i
    unfolding P_def by auto
  have zero: "P seen (a # as) 0 \<longleftrightarrow> title_key a \<noteq> [] \<and> title_key a \<notin> seen"
    unfolding P_def by simp
  have tail: "map (\<lambda>i. (a # as) ! i) (filter (P seen (a # as)) (map Suc [0..<length as]))
              = map (\<lambda>i. as ! i) (filter (P (insert (title_key a) seen) as) [0..<length as])"
    by (simp add: filter_map comp_def shift)
  have goal: "unique_articles seen (a # as)
              = map (\<lambda>i. (a # as) ! i) (filter (P seen (a # as)) [0..<length (a # as)])"
  proof (cases "title_key a \<noteq> [] \<and> title_key a \<notin> seen")
    case True
    then have "unique_articles seen (a # as)
               = a # unique_articles (insert (title_key a) seen) as"
      by simp
    also have "\<dots> = a # map (\<lambda>i. as ! i)
                            (filter (P (insert (title_key a) seen) as) [0..<length as])"
      by (simp only: IH)
    also have "\<dots> = map (\<lambda>i. (a # as) ! i)
                       (filter (P seen (a # as)) [0..<length (a # as)])"
      unfolding upt using True zero tail by simp
    finally show ?thesis .
  next
    case False
    have "P (insert (title_key a) seen) as i = P seen as i" for i
      using False unfolding P_def by auto
    then have same: "P (insert (title_key a) seen) as = P seen as"
      by (rule ext)
    from False have "unique_articles seen (a # as) = unique_articles seen as"
      by auto
    also have "\<dots> = map (\<lambda>i. as ! i) (filter (P seen as) [0..<length as])"
      by (simp only: IH)
    also have "\<dots> = map (\<lambda>i. (a # as) ! i)
                       (filter (P seen (a # as)) [0..<length (a # as)])"
      unfolding upt using False zero tail by (simp add: same)
    finally show ?thesis .
  qed
  then show ?case unfolding P_def .
qed

lemma compared_title_key: "compared_title = title_key"
  by (rule ext) (simp add: compared_title_def title_key_def)

lemma unique_articles_spec: "unique_articles {} as = spec_first_seen as"
  by (simp add: unique_articles_indices spec_first_seen_def compared_title_key)

lemma unique_articles_length:
  "length (unique_articles {} as) = card (title_key ` set as - {[]})"
proof -
  have "distinct (map title_key (unique_articles {} as))"
    using unique_articles_keys [of "{}" as] by blast
  then have "card (set (map title_key (unique_articles {} as)))
             = length (map title_key (unique_articles {} as))"
    by (rule distinct_card)
  then have "card (title_key ` set (unique_articles {} as)) = length (unique_articles {} as)"
    by simp
  then show ?thesis
    using unique_articles_complete [of "{}" as] by simp
qed

lemma once_in_distinct:
  "distinct (map f xs) \<Longrightarrow> x \<in> set xs \<Longrightarrow> length (filter (\<lambda>y. f y = f x) xs) = 1"
proof (induction xs)
  case Nil
  then show ?case by simp
next
  case (Cons y ys)
  show ?case
  proof (cases "f y = f x")
    case True
    then have "f x \<notin> f ` set ys" using Cons.prems(1) by simp
    then have "\<forall>z\<in>set ys. f z \<noteq> f x" by (metis imageI)
    then have "filter (\<lambda>z. f z = f x) ys = []" by (simp add: filter_empty_conv)
    then show ?thesis using True by simp
  next
    case False
    then have "x \<in> set ys" using Cons.prems(2) by auto
    then show ?thesis using Cons.IH Cons.prems(1) False by simp
  qed
qed

lemma slice_to_take: "\<exists>m. slice_to n xs = take m xs"
  by (auto simp: slice_to_def)

lemma slice_to_nonneg: "0 \<le> n \<Longrightarrow> slice_to n xs = take (nat n) xs"
  by (simp add: slice_to_def)

lemma newsroom_merge:
  "fetch_news_articles_enhanced newsroom ''Acme'' ''acme.io'' 5 =
     [[(''title'', ''Acme launches rocket''), (''link'', ''https://news.example/1'')],
      [(''title'', ''Rocket fuel prices''), (''link'', ''https://news.example/2'')],
      [(''title'', ''Acme hires''), (''link'', ''https://news.example/3'')],
      [(''title'', ''Acme.io raises funds''), (''link'', ''https://other.example/b'')]]"
  by code_simp

lemma newsroom_gathered:
  "gathered_articles newsroom ''Acme'' ''acme.io'' 5 =
     [[(''title'', ''Acme launches rocket''), (''link'', ''https://news.example/1'')],
      [(''title'', ''Rocket fuel prices''), (''link'', ''https://news.example/2'')],
      [(''title'', ''Acme hires''), (''link'', ''https://news.example/3'')],
      [(''title'', ''ACME LAUNCHES ROCKET ''), (''link'', ''https://other.example/a'')],
      [(''title'', ''Acme.io raises funds''), (''link'', ''https://other.example/b'')]]"
  by code_simp

text \<open>
  C4. \<^verbatim>\<open>fetch_news_articles_enhanced\<close> consults the reply to the domain query exactly when
  the domain is not empty and is not a substring of the name: otherwise the articles it
  gathers are those of the name query alone. Its output is the slice \<^verbatim>\<open>[:limit]\<close> of the
  specification's list of first-seen articles; for a limit that counts articles, that is
  the first \<open>limit\<close> of them, so the output has at most \<open>limit\<close> articles, and as many as
  there are different non-blank titles when these are not more than \<open>limit\<close>; then every
  non-blank title of a gathered article is the title of exactly one article of the
  output. Titles are compared lower-cased and trimmed. In every case no two articles of
  the output have the same title, the output is a subsequence of the gathered articles,
  and each of its articles has a non-blank title and is the first gathered article with
  that title.
\<close>

theorem fetch_news_articles_enhanced_merge:
  "(domain_arg = [] \<or> contains company domain_arg \<longrightarrow>
      gathered_articles w company domain_arg limit =
        (if company \<noteq> [] then fetch_news_articles w company limit else []))
   \<and> (domain_arg \<noteq> [] \<and> \<not> contains company domain_arg \<longrightarrow>
      gathered_articles w company domain_arg limit =
        (if company \<noteq> [] then fetch_news_articles w company limit else [])
        @ fetch_news_articles w (clean_news_domain domain_arg) limit)
   \<and> fetch_news_articles_enhanced w company domain_arg limit
       = slice_to limit (spec_first_seen (gathered_articles w company domain_arg limit))
   \<and> (0 \<le> limit \<longrightarrow>
        fetch_news_articles_enhanced w company domain_arg limit
          = take (nat limit) (spec_first_seen (gathered_articles w company domain_arg limit))
        \<and> int (length (fetch_news_articles_enhanced w company domain_arg limit)) \<le> limit
        \<and> length (fetch_news_articles_enhanced w company domain_arg limit)
            = min (nat limit)
                (card (compared_title ` set (gathered_articles w company domain_arg limit) - {[]}))
        \<and> (card (compared_title ` set (gathered_articles w company domain_arg limit) - {[]})
              \<le> nat limit \<longrightarrow>
            (\<forall>a\<in>set (gathered_articles w company domain_arg limit). compared_title a \<noteq> [] \<longrightarrow>
               length (filter (\<lambda>b. compared_title b = compared_title a)
                         (fetch_news_articles_enhanced w company domain_arg limit)) = 1)))
   \<and> distinct (map compared_title (fetch_news_articles_enhanced w company domain_arg limit))
   \<and> subseq (fetch_news_articles_enhanced w company domain_arg limit)
        (gathered_articles w company domain_arg limit)
   \<and> (\<forall>a\<in>set (fetch_news_articles_enhanced w company domain_arg limit).
         compared_title a \<noteq> []
         \<and> find (\<lambda>b. compared_title b = compared_title a) (gathered_articles w company domain_arg limit)
             = Some a)"
proof -
  define gathered where "gathered = gathered_articles w company domain_arg limit"
  define uniq where "uniq = unique_articles {} gathered"
  define out where "out = fetch_news_articles_enhanced w company domain_arg limit"
  have out_slice: "out = slice_to limit uniq"
    unfolding out_def uniq_def gathered_def fetch_news_articles_enhanced_def by (rule refl)
  obtain m where out: "out = take m uniq"
    using slice_to_take [of limit uniq] unfolding out_slice by blast
  have spec: "uniq = spec_first_seen gathered"
    unfolding uniq_def by (rule unique_articles_spec)
  have du: "distinct (map title_key uniq)"
    unfolding uniq_def using unique_articles_keys [of "{}" gathered] by blast
  have len: "length uniq = card (title_key ` set gathered - {[]})"
    unfolding uniq_def by (rule unique_articles_length)
  have g1: "domain_arg = [] \<or> contains company domain_arg \<longrightarrow>
      gathered = (if company \<noteq> [] then fetch_news_articles w company limit else [])"
    unfolding gathered_def gathered_articles_def by auto
  have g2: "domain_arg \<noteq> [] \<and> \<not> contains company domain_arg \<longrightarrow>
      gathered = (if company \<noteq> [] then fetch_news_articles w company limit else [])
        @ fetch_news_articles w (clean_news_domain domain_arg) limit"
    unfolding gathered_def gathered_articles_def by auto
  have s0: "out = slice_to limit (spec_first_seen gathered)"
    using out_slice spec by simp
  have pos: "out = take (nat limit) (spec_first_seen gathered)
        \<and> int (length out) \<le> limit
        \<and> length out = min (nat limit) (card (title_key ` set gathered - {[]}))
        \<and> (card (title_key ` set gathered - {[]}) \<le> nat limit \<longrightarrow>
            (\<forall>a\<in>set gathered. title_key a \<noteq> [] \<longrightarrow>
               length (filter (\<lambda>b. title_key b = title_key a) out) = 1))"
    if nonneg: "0 \<le> limit"
  proof -
    have t: "out = take (nat limit) uniq"
      unfolding out_slice using nonneg by (rule slice_to_nonneg)
    have l: "length out = min (nat limit) (card (title_key ` set gathered - {[]}))"
      unfolding t using len by simp
    have b: "int (length out) \<le> limit"
      using l nonneg by linarith
    have e: "\<forall>a\<in>set gathered. title_key a \<noteq> [] \<longrightarrow>
               length (filter (\<lambda>b. title_key b = title_key a) out) = 1"
      if full: "card (title_key ` set gathered - {[]}) \<le> nat limit"
    proof (intro ballI impI)
      fix a assume a: "a \<in> set gathered" and k: "title_key a \<noteq> []"
      have whole: "out = uniq" unfolding t using full len by simp
      have "title_key a \<in> title_key ` set gathered - {[]}" using a k by blast
      then have "title_key a \<in> title_key ` set uniq"
        unfolding uniq_def using unique_articles_complete [of "{}" gathered] by simp
      then obtain u where u: "u \<in> set uniq" "title_key u = title_key a" by auto
      have "length (filter (\<lambda>b. title_key b = title_key u) uniq) = 1"
        using du u(1) by (rule once_in_distinct)
      then show "length (filter (\<lambda>b. title_key b = title_key a) out) = 1"
        unfolding whole u(2) .
    qed
    from t spec l b e show ?thesis by blast
  qed
  have d: "distinct (map title_key out)"
    unfolding out using du by (simp add: take_map [symmetric])
  have "subseq out uniq"
    unfolding out using take_is_prefix by (rule prefix_imp_subseq)
  then have s: "subseq out gathered"
    using unique_articles_subseq [of "{}" gathered] unfolding uniq_def
    by (rule subseq_order.trans)
  have sub: "set out \<subseteq> set uniq"
    unfolding out by (rule set_take_subset)
  have f: "\<forall>a\<in>set out. title_key a \<noteq> []
         \<and> find (\<lambda>b. title_key b = title_key a) gathered = Some a"
  proof
    fix a assume "a \<in> set out"
    then have a: "a \<in> set (unique_articles {} gathered)" using sub uniq_def by blast
    then show "title_key a \<noteq> []
         \<and> find (\<lambda>b. title_key b = title_key a) gathered = Some a"
      using unique_articles_keys [of "{}" gathered] unique_articles_first [OF a] by blast
  qed
  from g1 g2 s0 pos d s f show ?thesis
    unfolding gathered_def out_def compared_title_key by blast
qed

theorem fetch_news_articles_enhanced_merge_witness:
  "fetch_news_articles_enhanced newsroom ''Acme'' ''acme.io'' 5 =
     [[(''title'', ''Acme launches rocket''), (''link'', ''https://news.example/1'')],
      [(''title'', ''Rocket fuel prices''), (''link'', ''https://news.example/2'')],
      [(''title'', ''Acme hires''), (''link'', ''https://news.example/3'')],
      [(''title'', ''Acme.io raises funds''), (''link'', ''https://other.example/b'')]]
   \<and> fetch_news_articles_enhanced newsroom ''Acme'' ''acme.io'' 5 =
       take 5 (spec_first_seen (gathered_articles newsroom ''Acme'' ''acme.io'' 5))
   \<and> gathered_articles newsroom ''Acme'' ''acme.io'' 5 =
       fetch_news_articles newsroom ''Acme'' 5 @ fetch_news_articles newsroom ''acme.io'' 5
   \<and> gathered_articles newsroom ''Acme'' [] 5 = fetch_news_articles newsroom ''Acme'' 5
   \<and> card (compared_title ` set (gathered_articles newsroom ''Acme'' ''acme.io'' 5) - {[]}) = 4
   \<and> length (filter (\<lambda>b. compared_title b = compared_title
                 [(''title'', ''ACME LAUNCHES ROCKET ''), (''link'', ''https://other.example/a'')])
               (fetch_news_articles_enhanced newsroom ''Acme'' ''acme.io'' 5)) = 1
   \<and> distinct (map compared_title (fetch_news_articles_enhanced newsroom ''Acme'' ''acme.io'' 5))
   \<and> int (length (fetch_news_articles_enhanced newsroom ''Acme'' ''acme.io'' 5)) \<le> 5"
proof -
  note t = fetch_news_articles_enhanced_merge
    [where w = newsroom and company = "''Acme''" and domain_arg = "''acme.io''" and limit = 5]
  note t0 = fetch_news_articles_enhanced_merge
    [where w = newsroom and company = "''Acme''" and domain_arg = "[]" and limit = 5]
  have h: "''acme.io'' \<noteq> [] \<and> \<not> contains ''Acme'' ''acme.io''"
    by code_simp
  have cd: "clean_news_domain ''acme.io'' = ''acme.io''"
    by code_simp
  have p: "(0::int) \<le> 5"
    by simp
  note split = t [THEN conjunct2, THEN conjunct1, THEN mp, OF h]
  note alone = t0 [THEN conjunct1, THEN mp, OF disjI1, OF refl]
  note counted = t [THEN conjunct2, THEN conjunct2, THEN conjunct2, THEN conjunct1, THEN mp, OF p]
  note rest = t [THEN conjunct2, THEN conjunct2, THEN conjunct2, THEN conjunct2]
  have g: "gathered_articles newsroom ''Acme'' ''acme.io'' 5 =
       fetch_news_articles newsroom ''Acme'' 5 @ fetch_news_articles newsroom ''acme.io'' 5"
    using split by (simp add: cd)
  have g0: "gathered_articles newsroom ''Acme'' [] 5 = fetch_news_articles newsroom ''Acme'' 5"
    using alone by simp
  have sp: "fetch_news_articles_enhanced newsroom ''Acme'' ''acme.io'' 5 =
       take 5 (spec_first_seen (gathered_articles newsroom ''Acme'' ''acme.io'' 5))"
    using counted [THEN conjunct1] by simp
  have "length (fetch_news_articles_enhanced newsroom ''Acme'' ''acme.io'' 5)
        = min (nat 5)
            (card (compared_title ` set (gathered_articles newsroom ''Acme'' ''acme.io'' 5) - {[]}))"
    using counted [THEN conjunct2, THEN conjunct2, THEN conjunct1] .
  then have c: "card (compared_title ` set (gathered_articles newsroom ''Acme'' ''acme.io'' 5) - {[]}) = 4"
    by (simp add: newsroom_merge)
  have m: "[(''title'', ''ACME LAUNCHES ROCKET ''), (''link'', ''https://other.example/a'')]
             \<in> set (gathered_articles newsroom ''Acme'' ''acme.io'' 5)"
    by (simp add: newsroom_gathered)
  have k: "compared_title [(''title'', ''ACME LAUNCHES ROCKET ''), (''link'', ''https://other.example/a'')]
             \<noteq> []"
    by code_simp
  have full: "card (compared_title ` set (gathered_articles newsroom ''Acme'' ''acme.io'' 5) - {[]})
                \<le> nat 5"
    using c by simp
  have o: "length (filter (\<lambda>b. compared_title b = compared_title
                 [(''title'', ''ACME LAUNCHES ROCKET ''), (''link'', ''https://other.example/a'')])
               (fetch_news_articles_enhanced newsroom ''Acme'' ''acme.io'' 5)) = 1"
    using counted [THEN conjunct2, THEN conjunct2, THEN conjunct2, THEN mp, OF full] m k
    by blast
  have d: "distinct (map compared_title (fetch_news_articles_enhanced newsroom ''Acme'' ''acme.io'' 5))"
    using rest by blast
  have l: "int (length (fetch_news_articles_enhanced newsroom ''Acme'' ''acme.io'' 5)) \<le> 5"
    using counted [THEN conjunct2, THEN conjunct1] .
  from newsroom_merge sp g g0 c o d l show ?thesis by blast
qed

end
